theory Spec2Isabelle
  imports Complex_Main "HOL-Library.Sublist" "HOL-Library.Multiset" "HOL-Library.AList"
begin

section \<open>Python values used by the mood canvas code\<close>

text \<open>
  A Python \<open>str\<close> is modelled as a \<open>string\<close>, one \<open>char\<close> per code point, so the
  model covers texts over the Latin-1 range and \<open>length\<close> is Python's \<open>len\<close>. Exceptions
  are values of \<open>exn\<close>; a function that may raise returns \<open>exn + 'a\<close> with \<open>Inl\<close> the
  exception.
\<close>

datatype exn =
    ValueError string
  | TypeError
  | AttributeError
  | KeyError
  | IndexError
  | Exception string

text \<open>\<open>sep.join(xs)\<close>.\<close>

fun join :: "string \<Rightarrow> string list \<Rightarrow> string" where
  "join sep [] = []"
| "join sep [x] = x"
| "join sep (x # y # ys) = x @ sep @ join sep (y # ys)"

text \<open>Truth value of an optional string (\<open>None\<close> and \<open>''\<close> are false) and \<open>x or default\<close>.\<close>

definition truthy :: "string option \<Rightarrow> bool" where
  "truthy s = (case s of None \<Rightarrow> False | Some t \<Rightarrow> t \<noteq> [])"

definition or_empty :: "'a list option \<Rightarrow> 'a list" where
  "or_empty v = (case v of None \<Rightarrow> [] | Some xs \<Rightarrow> xs)"

definition or_default :: "string option \<Rightarrow> string \<Rightarrow> string" where
  "or_default v d = (case v of None \<Rightarrow> d | Some s \<Rightarrow> (if s = [] then d else s))"

text \<open>
  The loop \<open>for tag in tags: if tag in table: parts.append(table[tag]); break\<close>: the
  entry of the first key found in the table, if any.
\<close>

fun first_match :: "(string \<rightharpoonup> string) \<Rightarrow> string list \<Rightarrow> string list" where
  "first_match table [] = []"
| "first_match table (t # ts) =
     (case table t of Some v \<Rightarrow> [v] | None \<Rightarrow> first_match table ts)"

text \<open>The loop \<open>for g in keys: if g in table: out.append(table[g])\<close>, without a break.\<close>

fun all_matches :: "(string \<rightharpoonup> string) \<Rightarrow> string list \<Rightarrow> string list" where
  "all_matches table [] = []"
| "all_matches table (t # ts) =
     (case table t of Some v \<Rightarrow> v # all_matches table ts | None \<Rightarrow> all_matches table ts)"

section \<open>image_generator.py: create_image_prompt\<close>

definition image_energy_qualities :: "string \<rightharpoonup> string" where
  "image_energy_qualities = map_of
     [(''low'', ''gentle, flowing, peaceful movement''),
      (''medium'', ''steady, rhythmic, balanced energy''),
      (''high'', ''dynamic, powerful, intense motion'')]"

definition image_emotion_colors :: "string \<rightharpoonup> string" where
  "image_emotion_colors = map_of
     [(''graceful'', ''elegant gold and white tones''),
      (''triumphant'', ''victory gold and electric blue''),
      (''flowing'', ''fluid blues and silvers''),
      (''energetic'', ''vibrant oranges and electric colors''),
      (''calm'', ''soft blues and pearl whites''),
      (''confident'', ''bold golds and deep blues''),
      (''peaceful'', ''gentle greens and soft whites'')]"

definition image_genre_styles :: "string \<rightharpoonup> string" where
  "image_genre_styles = map_of
     [(''electronic'', ''digital art, geometric patterns, futuristic elements''),
      (''pop'', ''vibrant, contemporary, bold graphics''),
      (''folk'', ''organic, natural textures, hand-crafted feel''),
      (''ambient'', ''atmospheric, ethereal, abstract flows''),
      (''rock'', ''dramatic, high contrast, powerful composition''),
      (''classical'', ''elegant, refined, timeless beauty'')]"

definition image_emotion_styles :: "string \<rightharpoonup> string" where
  "image_emotion_styles = map_of
     [(''graceful'', ''fluid, elegant curves, refined composition''),
      (''triumphant'', ''upward movement, victory poses, heroic lighting''),
      (''flowing'', ''smooth gradients, continuous motion lines''),
      (''confident'', ''strong composition, clear focal points''),
      (''energetic'', ''dynamic angles, explosive patterns'')]"

definition image_core :: "string list \<Rightarrow> string option \<Rightarrow> string list \<Rightarrow> string" where
  "image_core emotional_tags mood_text visual_imagery =
     (if visual_imagery \<noteq> [] then
        (if truthy mood_text \<and> length (the mood_text) < 80
         then ''Dynamic artwork showing '' @ join '', '' (take 3 visual_imagery)
                @ '', inspired by '' @ [CHR 0x27] @ the mood_text @ [CHR 0x27]
         else ''Dynamic artwork featuring '' @ join '', '' (take 3 visual_imagery))
      else if truthy mood_text \<and> length (the mood_text) < 80
        then ''Abstract visual representation of '' @ [CHR 0x27] @ the mood_text @ [CHR 0x27]
      else ''Abstract artwork expressing '' @ join '', '' (take 3 emotional_tags) @ '' emotions'')"

definition image_prompt_parts ::
  "string list \<Rightarrow> string list \<Rightarrow> string option \<Rightarrow> string list option \<Rightarrow> string option
     \<Rightarrow> string list option \<Rightarrow> string option \<Rightarrow> string list" where
  "image_prompt_parts emotional_tags genres mood_text visual_imagery0 movement_quality0
       color_palette0 energy_level0 =
     (let visual_imagery = or_empty visual_imagery0;
          color_palette = or_empty color_palette0;
          movement_quality = or_default movement_quality0 [];
          energy_level = or_default energy_level0 ''medium'';
          style_elements = all_matches image_genre_styles (take 2 genres)
                             @ all_matches image_emotion_styles (take 2 emotional_tags)
      in [image_core emotional_tags mood_text visual_imagery]
         @ (case image_energy_qualities energy_level of Some q \<Rightarrow> [q] | None \<Rightarrow> [])
         @ (if movement_quality \<noteq> [] then [''with '' @ movement_quality] else [])
         @ (if color_palette \<noteq> []
            then [''featuring '' @ join '', '' (take 3 color_palette) @ '' color palette'']
            else first_match image_emotion_colors (take 2 emotional_tags))
         @ (if style_elements \<noteq> [] then [join '', '' (take 2 style_elements)] else [])
         @ [''digital art, masterpiece quality, highly detailed, artistic composition, no text or words''])"

definition create_image_prompt ::
  "string list \<Rightarrow> string list \<Rightarrow> string option \<Rightarrow> string list option \<Rightarrow> string option
     \<Rightarrow> string list option \<Rightarrow> string option \<Rightarrow> string" where
  "create_image_prompt emotional_tags genres mood_text visual_imagery movement_quality
       color_palette energy_level =
     (let full_prompt = join ''. '' (image_prompt_parts emotional_tags genres mood_text
                           visual_imagery movement_quality color_palette energy_level)
      in if length full_prompt > 900 then take 900 full_prompt @ ''...'' else full_prompt)"

section \<open>video_generator.py: create_video_prompt\<close>

definition video_energy_movements :: "string \<rightharpoonup> string" where
  "video_energy_movements = map_of
     [(''low'', ''slow, gentle, flowing camera movements with peaceful transitions''),
      (''medium'', ''steady, rhythmic pacing with smooth camera work''),
      (''high'', ''dynamic, energetic movement with quick cuts and flowing motion'')]"

definition video_emotion_colors :: "string \<rightharpoonup> string" where
  "video_emotion_colors = map_of
     [(''graceful'', ''elegant gold and soft white tones with warm lighting''),
      (''triumphant'', ''victory gold and electric blue with dramatic lighting''),
      (''flowing'', ''fluid blues and silvers with ethereal lighting''),
      (''energetic'', ''vibrant oranges and electric colors with dynamic lighting''),
      (''calm'', ''soft blues and pearl whites with gentle, diffused lighting''),
      (''confident'', ''bold golds and deep blues with strong, directional lighting''),
      (''peaceful'', ''gentle greens and soft whites with natural lighting'')]"

definition video_genre_styles :: "string \<rightharpoonup> string" where
  "video_genre_styles = map_of
     [(''electronic'', ''futuristic, digital aesthetic with geometric patterns and neon accents''),
      (''pop'', ''vibrant, contemporary style with bold visual elements''),
      (''folk'', ''organic, natural textures with earthy, hand-crafted feel''),
      (''ambient'', ''atmospheric, ethereal with abstract flowing elements''),
      (''rock'', ''dramatic, high contrast with powerful visual composition''),
      (''classical'', ''elegant, refined with timeless, sophisticated visuals''),
      (''jazz'', ''smooth, sophisticated with warm, moody atmosphere'')]"

definition video_core :: "string list \<Rightarrow> string option \<Rightarrow> string list \<Rightarrow> string" where
  "video_core emotional_tags mood_text visual_imagery =
     (if visual_imagery \<noteq> [] \<and> truthy mood_text then
        (if length (the mood_text) < 60
         then ''Cinematic video showing '' @ join '', '' (take 2 visual_imagery)
                @ '', embodying the feeling of '' @ [CHR 0x27] @ the mood_text @ [CHR 0x27]
         else ''Cinematic video featuring '' @ join '', '' (take 2 visual_imagery))
      else if truthy mood_text \<and> length (the mood_text) < 60
        then ''Abstract visual representation of '' @ [CHR 0x27] @ the mood_text @ [CHR 0x27]
               @ '' in motion''
      else ''Flowing cinematic video expressing '' @ join '', '' (take 2 emotional_tags)
             @ '' emotions'')"

definition video_prompt_parts ::
  "string list \<Rightarrow> string list \<Rightarrow> string option \<Rightarrow> string list option \<Rightarrow> string option
     \<Rightarrow> string list option \<Rightarrow> string option \<Rightarrow> string list" where
  "video_prompt_parts emotional_tags genres mood_text visual_imagery0 movement_quality0
       color_palette0 energy_level0 =
     (let visual_imagery = or_empty visual_imagery0;
          color_palette = or_empty color_palette0;
          movement_quality = or_default movement_quality0 [];
          energy_level = or_default energy_level0 ''medium''
      in [video_core emotional_tags mood_text visual_imagery]
         @ (case video_energy_movements energy_level of Some q \<Rightarrow> [q] | None \<Rightarrow> [])
         @ (if movement_quality \<noteq> []
            then [''featuring '' @ movement_quality @ '' throughout the sequence''] else [])
         @ (if color_palette \<noteq> []
            then [''with '' @ join '', '' (take 3 color_palette)
                    @ '' color scheme and complementary lighting'']
            else first_match video_emotion_colors (take 2 emotional_tags))
         @ first_match video_genre_styles (take 2 genres)
         @ [''high quality cinematic video, 8 seconds duration, smooth motion, professional cinematography'',
            ''no text overlays, pure visual storytelling''])"

definition create_video_prompt ::
  "string list \<Rightarrow> string list \<Rightarrow> string option \<Rightarrow> string list option \<Rightarrow> string option
     \<Rightarrow> string list option \<Rightarrow> string option \<Rightarrow> string" where
  "create_video_prompt emotional_tags genres mood_text visual_imagery movement_quality
       color_palette energy_level =
     (let full_prompt = join ''. '' (video_prompt_parts emotional_tags genres mood_text
                           visual_imagery movement_quality color_palette energy_level)
      in if length full_prompt > 800 then take 800 full_prompt @ ''...'' else full_prompt)"

section \<open>spotify_client.py: the catalog client\<close>

text \<open>
  The catalog service sits behind the \<open>spotipy\<close> handle stored in \<open>self.sp\<close>. It is
  modelled as a record of response functions; every request made through the handle is
  appended to a list of network calls, so that "no network call" is an empty list. The
  first argument of \<open>sp_search\<close> is the number of requests already logged, which lets
  the service answer the same query differently each time.
\<close>

text \<open>
  An entry of \<open>results['tracks']['items']\<close>. \<open>Malformed\<close> stands for an entry on which one
  of the key lookups of the conversion loop raises; an entry with an empty artist list
  raises at \<open>track['artists'][0]\<close>.
\<close>

datatype item =
    Item (i_name: string) (i_artists: "string list") (i_uri: string)
         (i_preview_url: "string option") (i_external_url: string)
  | Malformed

record track =
  name :: string
  artist :: string
  uri :: string
  preview_url :: "string option"
  external_url :: string
  search_source :: string

record playlist =
  pl_id :: "string option"
  pl_external_url :: "string option"


datatype net_call =
    CurrentUser
  | Search (call_query: string) (call_limit: int)
  | UserPlaylistCreate string string bool string
  | PlaylistAddItems string "string list"

record catalog =
  sp_current_user :: "exn + string"
  sp_search :: "nat \<Rightarrow> string \<Rightarrow> int \<Rightarrow> exn + item list"
  sp_user_playlist_create :: "string \<Rightarrow> string \<Rightarrow> bool \<Rightarrow> string \<Rightarrow> exn + playlist"
  sp_playlist_add_items :: "string \<Rightarrow> string list \<Rightarrow> exn + unit"

record spotify_client =
  client_id :: string
  client_secret :: string
  redirect_uri :: string
  scope :: string
  sp :: "catalog option"
  user_id :: "string option"

definition init :: "string \<Rightarrow> string \<Rightarrow> string \<Rightarrow> spotify_client" where
  "init cid secret redirect =
     \<lparr>client_id = cid, client_secret = secret, redirect_uri = redirect,
      scope = ''playlist-modify-public playlist-modify-private'',
      sp = None, user_id = None\<rparr>"

text \<open>
  \<open>authenticate\<close> stores the handle before it asks for the current user, so a failed
  request leaves \<open>sp\<close> set and \<open>user_id\<close> unset.
\<close>

definition authenticate :: "catalog \<Rightarrow> spotify_client \<Rightarrow> (bool \<times> spotify_client) \<times> net_call list" where
  "authenticate service c =
     (let c1 = c\<lparr>sp := Some service\<rparr>
      in case sp_current_user service of
           Inl e \<Rightarrow> ((False, c1), [CurrentUser])
         | Inr uid \<Rightarrow> ((True, c1\<lparr>user_id := Some uid\<rparr>), [CurrentUser]))"

subsection \<open>search_tracks: query generation\<close>

text \<open>
  A search query is the dict \<open>{'query': ..., 'weight': ...}\<close>. The weights are the
  decimal fractions written in the source, kept exact: the model computes with rationals
  where Python computes with binary floating point.
\<close>

record search_query =
  query :: string
  weight :: rat

definition energy_terms :: "string \<rightharpoonup> string list" where
  "energy_terms = map_of
     [(''low'', [''chill'', ''ambient'', ''calm'', ''peaceful'']),
      (''medium'', [''groovy'', ''steady'', ''flowing'']),
      (''high'', [''energetic'', ''powerful'', ''intense'', ''upbeat''])]"

definition tempo_terms :: "string \<rightharpoonup> string list" where
  "tempo_terms = map_of
     [(''slow'', [''slow'', ''downtempo'', ''ballad'']),
      (''moderate'', [''mid-tempo'', ''groove'']),
      (''fast'', [''upbeat'', ''fast'', ''energetic'']),
      (''explosive'', [''intense'', ''powerful'', ''explosive'', ''high-energy''])]"

text \<open>The three loops that append to \<open>search_queries\<close>, each as a fold over its loop list.\<close>

definition genre_step :: "string \<Rightarrow> search_query list \<Rightarrow> search_query list" where
  "genre_step genre search_queries =
     search_queries @ [\<lparr>query = ''genre:'' @ genre, weight = 4 / 10\<rparr>]"

definition keyword_step :: "string list \<Rightarrow> string \<Rightarrow> search_query list \<Rightarrow> search_query list" where
  "keyword_step genres keyword search_queries =
     (let with_genre =
            (case genres of
               [] \<Rightarrow> search_queries
             | g0 # _ \<Rightarrow> search_queries @ [\<lparr>query = keyword @ '' genre:'' @ g0, weight = 3 / 10\<rparr>])
      in with_genre @ [\<lparr>query = keyword, weight = 2 / 10\<rparr>])"

definition energy_step :: "string list \<Rightarrow> string \<Rightarrow> search_query list \<Rightarrow> search_query list" where
  "energy_step genres term search_queries =
     search_queries
       @ [\<lparr>query = term @ '' '' @ (case genres of [] \<Rightarrow> [] | g0 # _ \<Rightarrow> g0), weight = 1 / 10\<rparr>]"

definition build_search_queries ::
  "string list \<Rightarrow> string list \<Rightarrow> string option \<Rightarrow> search_query list" where
  "build_search_queries genres search_keywords energy_level =
     (let q1 = fold genre_step genres [];
          q2 = fold (keyword_step genres) (take 3 search_keywords) q1
      in if truthy energy_level then
           (case energy_terms (the energy_level) of
              Some terms \<Rightarrow> fold (energy_step genres) (take 2 terms) q2
            | None \<Rightarrow> q2)
         else q2)"

subsection \<open>search_tracks: running the queries\<close>

text \<open>\<open>int(x)\<close> on a fraction truncates toward zero.\<close>

definition py_int :: "rat \<Rightarrow> int" where
  "py_int x = (if 0 \<le> x then \<lfloor>x\<rfloor> else \<lceil>x\<rceil>)"

definition tracks_needed :: "rat \<Rightarrow> int \<Rightarrow> search_query \<Rightarrow> int" where
  "tracks_needed total_weight limit query_info =
     max 1 (py_int ((weight query_info / total_weight) * of_int limit))"

text \<open>
  The inner loop converts the entries one by one and appends each to \<open>all_tracks\<close>; an
  entry that raises ends the loop for this query, and the tracks already appended stay.
\<close>

fun convert_items :: "string \<Rightarrow> item list \<Rightarrow> track list" where
  "convert_items q [] = []"
| "convert_items q (Malformed # rest) = []"
| "convert_items q (Item n as u p e # rest) =
     (case as of
        [] \<Rightarrow> []
      | a # _ \<Rightarrow> \<lparr>name = n, artist = a, uri = u, preview_url = p, external_url = e,
                  search_source = q\<rparr> # convert_items q rest)"

fun run_queries ::
  "catalog \<Rightarrow> rat \<Rightarrow> int \<Rightarrow> search_query list \<Rightarrow> net_call list \<Rightarrow> track list
     \<Rightarrow> net_call list \<times> track list" where
  "run_queries service total_weight limit [] calls all_tracks = (calls, all_tracks)"
| "run_queries service total_weight limit (query_info # rest) calls all_tracks =
     (let n = tracks_needed total_weight limit query_info;
          calls1 = calls @ [Search (query query_info) n]
      in case sp_search service (length calls) (query query_info) n of
           Inl e \<Rightarrow> run_queries service total_weight limit rest calls1 all_tracks
         | Inr items \<Rightarrow>
             run_queries service total_weight limit rest calls1
               (all_tracks @ convert_items (query query_info) items))"

subsection \<open>search_tracks: deduplication, shuffle, truncation\<close>

fun dedup :: "string set \<Rightarrow> track list \<Rightarrow> track list" where
  "dedup seen_uris [] = []"
| "dedup seen_uris (t # ts) =
     (if uri t \<notin> seen_uris then t # dedup (insert (uri t) seen_uris) ts
      else dedup seen_uris ts)"

text \<open>
  \<open>random.shuffle\<close> walks \<open>i\<close> from the last index down to 1 and swaps position \<open>i\<close> with
  \<open>randbelow(i + 1)\<close>. The random source is a parameter: \<open>rnd i mod (i + 1)\<close> is the
  index drawn at step \<open>i\<close>.
\<close>

fun shuffle_from :: "(nat \<Rightarrow> nat) \<Rightarrow> nat \<Rightarrow> 'a list \<Rightarrow> 'a list" where
  "shuffle_from rnd 0 xs = xs"
| "shuffle_from rnd (Suc i) xs =
     (let j = rnd (Suc i) mod (Suc i + 1)
      in shuffle_from rnd i (xs[Suc i := xs ! j, j := xs ! Suc i]))"

definition shuffle :: "(nat \<Rightarrow> nat) \<Rightarrow> 'a list \<Rightarrow> 'a list" where
  "shuffle rnd xs = shuffle_from rnd (length xs - 1) xs"

text \<open>\<open>xs[:n]\<close>: a negative \<open>n\<close> counts from the end.\<close>

definition py_take :: "int \<Rightarrow> 'a list \<Rightarrow> 'a list" where
  "py_take n xs = (if 0 \<le> n then take (nat n) xs else take (nat (int (length xs) + n)) xs)"

definition not_authenticated :: exn where
  "not_authenticated = Exception ''Not authenticated. Call authenticate() first.''"

definition search_tracks ::
  "spotify_client \<Rightarrow> (nat \<Rightarrow> nat) \<Rightarrow> string list \<Rightarrow> int \<Rightarrow> string list option
     \<Rightarrow> string option \<Rightarrow> string option \<Rightarrow> (exn + track list) \<times> net_call list" where
  "search_tracks self rnd genres limit search_keywords0 energy_level tempo_feeling =
     (case sp self of
        None \<Rightarrow> (Inl not_authenticated, [])
      | Some service \<Rightarrow>
          (let search_keywords = or_empty search_keywords0;
               search_queries = build_search_queries genres search_keywords energy_level;
               total_weight = sum_list (map weight search_queries);
               (calls, all_tracks) = run_queries service total_weight limit search_queries [] [];
               unique_tracks = dedup {} all_tracks
           in (Inr (py_take limit (shuffle rnd unique_tracks)), calls)))"

subsection \<open>create_playlist\<close>



section \<open>mood_to_music.py: the mood analyzer\<close>

subsection \<open>String methods\<close>

text \<open>\<open>str.isspace\<close> on the code points below 256, \<open>str.strip\<close> and \<open>str.lower\<close>.\<close>

definition is_space :: "char \<Rightarrow> bool" where
  "is_space c =
     (let n = (of_char c :: nat)
      in (9 \<le> n \<and> n \<le> 13) \<or> (28 \<le> n \<and> n \<le> 32) \<or> n = 133 \<or> n = 160)"

definition strip :: "string \<Rightarrow> string" where
  "strip s = rev (dropWhile is_space (rev (dropWhile is_space s)))"

definition lower_char :: "char \<Rightarrow> char" where
  "lower_char c =
     (let n = (of_char c :: nat)
      in if (65 \<le> n \<and> n \<le> 90) \<or> (192 \<le> n \<and> n \<le> 222 \<and> n \<noteq> 215)
         then char_of (n + 32) else c)"

definition lower :: "string \<Rightarrow> string" where
  "lower s = map lower_char s"

text \<open>\<open>sub in s\<close> on strings: \<open>sub\<close> occurs in \<open>s\<close> as a contiguous block.\<close>

fun py_in :: "string \<Rightarrow> string \<Rightarrow> bool" where
  "py_in sub [] = (sub = [])"
| "py_in sub (c # cs) = (prefix sub (c # cs) \<or> py_in sub cs)"

subsection \<open>Parsed JSON\<close>

text \<open>
  What \<open>json.loads\<close> returns. An object is the association list of its members; the
  parser itself belongs to the standard library and is a parameter \<open>loads\<close> of the
  functions below, \<open>None\<close> standing for \<open>JSONDecodeError\<close>.
\<close>

datatype json =
    JNull
  | JBool bool
  | JNum rat
  | JStr string
  | JList "json list"
  | JObj "(string \<times> json) list"

type_synonym py_dict = "(string \<times> json) list"

definition sbind :: "exn + 'a \<Rightarrow> ('a \<Rightarrow> exn + 'b) \<Rightarrow> exn + 'b" where
  "sbind m f = (case m of Inl e \<Rightarrow> Inl e | Inr x \<Rightarrow> f x)"

text \<open>\<open>field in mood_data\<close>: key membership, element membership, substring, or TypeError.\<close>

fun has_field :: "json \<Rightarrow> string \<Rightarrow> exn + bool" where
  "has_field (JObj kvs) field = Inr (map_of kvs field \<noteq> None)"
| "has_field (JList xs) field = Inr (JStr field \<in> set xs)"
| "has_field (JStr s) field = Inr (py_in field s)"
| "has_field _ field = Inl TypeError"

fun missing_field :: "json \<Rightarrow> string list \<Rightarrow> exn + string option" where
  "missing_field mood_data [] = Inr None"
| "missing_field mood_data (field # rest) =
     (case has_field mood_data field of
        Inl e \<Rightarrow> Inl e
      | Inr False \<Rightarrow> Inr (Some field)
      | Inr True \<Rightarrow> missing_field mood_data rest)"

text \<open>\<open>isinstance(v, list) and len(v) > 0\<close>; \<open>isinstance(v, str) and v.strip()\<close>.\<close>

fun nonempty_list :: "json \<Rightarrow> json list option" where
  "nonempty_list (JList xs) = (if xs = [] then None else Some xs)"
| "nonempty_list _ = None"

fun nonblank_str :: "json \<Rightarrow> string option" where
  "nonblank_str (JStr s) = (if strip s = [] then None else Some s)"
| "nonblank_str _ = None"

text \<open>A string method called on a value: AttributeError unless the value is a \<open>str\<close>.\<close>

fun str_method :: "json \<Rightarrow> exn + string" where
  "str_method (JStr s) = Inr s"
| "str_method _ = Inl AttributeError"

text \<open>\<open>v[:n]\<close>: lists and strings can be sliced, anything else raises.\<close>

fun slice_to :: "nat \<Rightarrow> json \<Rightarrow> exn + json" where
  "slice_to n (JList xs) = Inr (JList (take n xs))"
| "slice_to n (JStr s) = Inr (JStr (take n s))"
| "slice_to n _ = Inl TypeError"

definition get_default :: "py_dict \<Rightarrow> string \<Rightarrow> json \<Rightarrow> json" where
  "get_default d k dflt = (case map_of d k of Some v \<Rightarrow> v | None \<Rightarrow> dflt)"

definition set_item :: "string \<Rightarrow> json \<Rightarrow> py_dict \<Rightarrow> py_dict" where
  "set_item k v d = AList.update k v d"

text \<open>\<open>[tag.strip().lower() for tag in tags]\<close>: the first entry that is no string raises.\<close>

fun clean_entries :: "json list \<Rightarrow> exn + json list" where
  "clean_entries [] = Inr []"
| "clean_entries (tag # rest) =
     sbind (str_method tag) (\<lambda>s.
     sbind (clean_entries rest) (\<lambda>cleaned. Inr (JStr (lower (strip s)) # cleaned)))"

subsection \<open>extract_mood_components\<close>

definition clean_response :: "string \<Rightarrow> string" where
  "clean_response mood_response =
     (let c0 = strip mood_response;
          c1 = (if prefix (replicate 3 (CHR 0x60) @ ''json'') c0 then drop 7 c0 else c0);
          c2 = (if suffix (replicate 3 (CHR 0x60)) c1 then take (length c1 - 3) c1 else c1)
      in strip c2)"

definition required_fields :: "string list" where
  "required_fields = [''emotional_tags'', ''genres'', ''playlist_name'']"

definition fill_optional :: "py_dict \<Rightarrow> exn + py_dict" where
  "fill_optional d3 =
     sbind (str_method (get_default d3 ''energy_level'' (JStr ''medium''))) (\<lambda>el.
     let d4 = set_item ''energy_level'' (JStr (lower el)) d3 in
     sbind (str_method (get_default d4 ''tempo_feeling'' (JStr ''moderate''))) (\<lambda>tf.
     let d5 = set_item ''tempo_feeling'' (JStr (lower tf)) d4 in
     sbind (slice_to 5 (get_default d5 ''visual_imagery'' (JList []))) (\<lambda>vi.
     let d6 = set_item ''visual_imagery'' vi d5 in
     sbind (str_method (get_default d6 ''movement_quality'' (JStr []))) (\<lambda>mq.
     let d7 = set_item ''movement_quality'' (JStr (take 100 (strip mq))) d6 in
     sbind (slice_to 3 (get_default d7 ''color_palette'' (JList []))) (\<lambda>cp.
     let d8 = set_item ''color_palette'' cp d7 in
     sbind (slice_to 5 (get_default d8 ''search_keywords'' (JList []))) (\<lambda>sk.
     Inr (set_item ''search_keywords'' sk d8)))))))"

definition validate_dict :: "py_dict \<Rightarrow> exn + py_dict" where
  "validate_dict d =
     (case map_of d ''emotional_tags'' of
        None \<Rightarrow> Inl KeyError
      | Some et \<Rightarrow>
     (case nonempty_list et of
        None \<Rightarrow> Inl (ValueError ''emotional_tags must be a non-empty list'')
      | Some tags \<Rightarrow>
     (case map_of d ''genres'' of
        None \<Rightarrow> Inl KeyError
      | Some ge \<Rightarrow>
     (case nonempty_list ge of
        None \<Rightarrow> Inl (ValueError ''genres must be a non-empty list'')
      | Some gs \<Rightarrow>
     (case map_of d ''playlist_name'' of
        None \<Rightarrow> Inl KeyError
      | Some pn \<Rightarrow>
     (case nonblank_str pn of
        None \<Rightarrow> Inl (ValueError ''playlist_name must be a non-empty string'')
      | Some s \<Rightarrow>
          sbind (clean_entries (take 3 tags)) (\<lambda>tags1.
          let d1 = set_item ''emotional_tags'' (JList tags1) d in
          sbind (clean_entries (take 3 gs)) (\<lambda>gs1.
          let d2 = set_item ''genres'' (JList gs1) d1;
              d3 = set_item ''playlist_name'' (JStr (take 50 (strip s))) d2
          in fill_optional d3))))))))"

definition validate :: "json \<Rightarrow> exn + py_dict" where
  "validate mood_data =
     (case missing_field mood_data required_fields of
        Inl e \<Rightarrow> Inl e
      | Inr (Some field) \<Rightarrow> Inl (ValueError (''Missing required field: '' @ field))
      | Inr None \<Rightarrow>
          (case mood_data of JObj d \<Rightarrow> validate_dict d | _ \<Rightarrow> Inl TypeError))"

definition extract_mood_components :: "(string \<Rightarrow> json option) \<Rightarrow> string \<Rightarrow> exn + py_dict" where
  "extract_mood_components loads mood_response =
     (case loads (clean_response mood_response) of
        None \<Rightarrow> Inl (ValueError ''Invalid JSON response from OpenAI'')
      | Some mood_data \<Rightarrow> validate mood_data)"

subsection \<open>create_fallback_mood_analysis\<close>

definition canned :: "string list \<Rightarrow> string list \<Rightarrow> string \<Rightarrow> py_dict" where
  "canned tags gs pname =
     [(''emotional_tags'', JList (map JStr tags)), (''genres'', JList (map JStr gs)),
      (''playlist_name'', JStr pname)]"

definition any_word :: "string list \<Rightarrow> string \<Rightarrow> bool" where
  "any_word ws mood_lower = list_ex (\<lambda>word. py_in word mood_lower) ws"

definition create_fallback_mood_analysis :: "string \<Rightarrow> py_dict" where
  "create_fallback_mood_analysis mood_text =
     (let mood_lower = lower mood_text
      in if any_word [''calm'', ''peaceful'', ''relaxed'', ''serene''] mood_lower
           then canned [''calm'', ''peaceful''] [''ambient'', ''folk''] ''Peaceful Moments''
         else if any_word [''happy'', ''excited'', ''energetic'', ''pumped''] mood_lower
           then canned [''happy'', ''energetic''] [''pop'', ''electronic''] ''Energy Boost''
         else if any_word [''sad'', ''melancholy'', ''down'', ''blue''] mood_lower
           then canned [''melancholic'', ''reflective''] [''folk'', ''indie''] ''Reflection Time''
         else canned [''contemplative'', ''mixed''] [''indie'', ''alternative''] ''Mixed Feelings'')"

subsection \<open>analyze_mood\<close>

definition nl :: string where "nl = [CHR 0x0A]"
definition dq :: string where "dq = [CHR 0x22]"
definition sq :: string where "sq = [CHR 0x27]"

definition prompt_head :: string where
  "prompt_head = concat
     [nl,
      ''Analyze this mood description and extract rich, colorful details to create a vivid musical and visual experience:'',
      nl, nl, ''Mood: '', dq]"

definition prompt_tail :: string where
  "prompt_tail = concat
     [dq, nl, nl, ''Return JSON in this exact format:'', nl, ''{'', nl, ''  '', dq,
      ''emotional_tags'', dq, '': ['', dq, ''tag1'', dq, '', '', dq, ''tag2'', dq, '', '', dq,
      ''tag3'', dq, ''],'', nl, ''  '', dq, ''genres'', dq, '': ['', dq, ''genre1'', dq, '', '',
      dq, ''genre2'', dq, ''],'', nl, ''  '', dq, ''playlist_name'', dq, '': '', dq,
      ''Creative playlist name'', dq, '','', nl, ''  '', dq, ''energy_level'', dq, '': '', dq,
      ''low/medium/high'', dq, '','', nl, ''  '', dq, ''tempo_feeling'', dq, '': '', dq,
      ''slow/moderate/fast/explosive'', dq, '','', nl, ''  '', dq, ''visual_imagery'', dq,
      '': ['', dq, ''image1'', dq, '', '', dq, ''image2'', dq, '', '', dq, ''image3'', dq,
      ''],'', nl, ''  '', dq, ''movement_quality'', dq, '': '', dq, ''quality description'', dq,
      '','', nl, ''  '', dq, ''color_palette'', dq, '': ['', dq, ''color1'', dq, '', '', dq,
      ''color2'', dq, '', '', dq, ''color3'', dq, ''],'', nl, ''  '', dq, ''search_keywords'',
      dq, '': ['', dq, ''keyword1'', dq, '', '', dq, ''keyword2'', dq, '', '', dq, ''keyword3'',
      dq, '']'', nl, ''}'', nl, nl, ''Extraction Guidelines:'', nl,
      ''- emotional_tags: Nuanced emotions, not just basic ones (e.g., '', dq, ''triumphant'',
      dq, '', '', dq, ''graceful'', dq, '', '', dq, ''soaring'', dq, '')'', nl,
      ''- genres: Match energy and style (electronic for high energy, classical for elegance, etc.)'',
      nl, ''- energy_level: Physical/emotional intensity '', nl,
      ''- tempo_feeling: Musical pace that matches the mood'', nl,
      ''- visual_imagery: Concrete images from the text (e.g., '', dq, ''running'', dq, '', '',
      dq, ''finish line'', dq, '', '', dq, ''wings'', dq, '')'', nl,
      ''- movement_quality: How the person moves/feels (e.g., '', dq, ''fluid motion'', dq,
      '', '', dq, ''explosive power'', dq, '')'', nl,
      ''- color_palette: Colors that match the emotional tone (e.g., '', dq, ''gold'', dq,
      '', '', dq, ''electric blue'', dq, '', '', dq, ''sunset orange'', dq, '')'', nl,
      ''- search_keywords: Extra music search terms beyond genres (e.g., '', dq, ''victory'', dq,
      '', '', dq, ''motivation'', dq, '', '', dq, ''flow'', dq, '')'', nl,
      ''- playlist_name: Poetic name incorporating key imagery (15-30 characters)'', nl, nl,
      ''Examples:'', nl, ''Input: '', dq, ''I feel like I'', sq,
      ''m floating through fog at dawn'', dq, nl, ''Output: {'', dq, ''emotional_tags'', dq,
      '': ['', dq, ''ethereal'', dq, '', '', dq, ''peaceful'', dq, '', '', dq, ''emerging'', dq,
      ''], '', dq, ''genres'', dq, '': ['', dq, ''ambient'', dq, '', '', dq, ''folk'', dq,
      ''], '', dq, ''playlist_name'', dq, '': '', dq, ''Dawn Mist Floating'', dq, '', '', dq,
      ''energy_level'', dq, '': '', dq, ''low'', dq, '', '', dq, ''tempo_feeling'', dq, '': '',
      dq, ''slow'', dq, '', '', dq, ''visual_imagery'', dq, '': ['', dq, ''mist'', dq, '', '',
      dq, ''dawn light'', dq, '', '', dq, ''floating'', dq, ''], '', dq, ''movement_quality'',
      dq, '': '', dq, ''weightless drifting'', dq, '', '', dq, ''color_palette'', dq, '': ['',
      dq, ''pearl gray'', dq, '', '', dq, ''soft gold'', dq, '', '', dq, ''misty white'', dq,
      ''], '', dq, ''search_keywords'', dq, '': ['', dq, ''ethereal'', dq, '', '', dq,
      ''atmospheric'', dq, '', '', dq, ''morning'', dq, '']}'', nl, nl, ''Input: '', dq,
      ''Energized and ready to conquer the world'', dq, nl, ''Output: {'', dq,
      ''emotional_tags'', dq, '': ['', dq, ''triumphant'', dq, '', '', dq, ''powerful'', dq,
      '', '', dq, ''unstoppable'', dq, ''], '', dq, ''genres'', dq, '': ['', dq, ''electronic'',
      dq, '', '', dq, ''rock'', dq, ''], '', dq, ''playlist_name'', dq, '': '', dq,
      ''World Conqueror Rising'', dq, '', '', dq, ''energy_level'', dq, '': '', dq, ''high'', dq,
      '', '', dq, ''tempo_feeling'', dq, '': '', dq, ''explosive'', dq, '', '', dq,
      ''visual_imagery'', dq, '': ['', dq, ''summit'', dq, '', '', dq, ''rising sun'', dq,
      '', '', dq, ''victory'', dq, ''], '', dq, ''movement_quality'', dq, '': '', dq,
      ''surging forward'', dq, '', '', dq, ''color_palette'', dq, '': ['', dq, ''electric blue'',
      dq, '', '', dq, ''gold'', dq, '', '', dq, ''crimson'', dq, ''], '', dq,
      ''search_keywords'', dq, '': ['', dq, ''victory'', dq, '', '', dq, ''power'', dq, '', '',
      dq, ''motivation'', dq, '']}'', nl, nl, ''Input: '', dq,
      ''I feel gracefully running with strong momentum to the finish line light on my toes, confident and winning'',
      dq, nl, ''Output: {'', dq, ''emotional_tags'', dq, '': ['', dq, ''graceful'', dq, '', '',
      dq, ''triumphant'', dq, '', '', dq, ''flowing'', dq, ''], '', dq, ''genres'', dq, '': ['',
      dq, ''electronic'', dq, '', '', dq, ''pop'', dq, ''], '', dq, ''playlist_name'', dq,
      '': '', dq, ''Graceful Victory Sprint'', dq, '', '', dq, ''energy_level'', dq, '': '', dq,
      ''high'', dq, '', '', dq, ''tempo_feeling'', dq, '': '', dq, ''fast'', dq, '', '', dq,
      ''visual_imagery'', dq, '': ['', dq, ''finish line'', dq, '', '', dq, ''running'', dq,
      '', '', dq, ''light steps'', dq, ''], '', dq, ''movement_quality'', dq, '': '', dq,
      ''graceful power'', dq, '', '', dq, ''color_palette'', dq, '': ['', dq, ''electric gold'',
      dq, '', '', dq, ''victory blue'', dq, '', '', dq, ''bright white'', dq, ''], '', dq,
      ''search_keywords'', dq, '': ['', dq, ''running'', dq, '', '', dq, ''victory'', dq, '', '',
      dq, ''momentum'', dq, '', '', dq, ''grace'', dq, '']}'', nl, nl,
      ''Respond with ONLY the JSON, no other text.'', nl]"

definition create_mood_analysis_prompt :: "string \<Rightarrow> string" where
  "create_mood_analysis_prompt mood_text = prompt_head @ mood_text @ prompt_tail"

text \<open>
  \<open>api_key\<close> is what \<open>os.getenv('OPENAI_API_KEY')\<close> returns. \<open>chat\<close> is the completion
  endpoint: given the user message it returns the content of the first choice or raises.
  The second component of the result lists the prompts sent to the endpoint.
\<close>

definition analyze_mood ::
  "string option \<Rightarrow> (string \<Rightarrow> exn + string) \<Rightarrow> (string \<Rightarrow> json option) \<Rightarrow> string
     \<Rightarrow> (exn + py_dict) \<times> string list" where
  "analyze_mood api_key chat loads mood_text =
     (if mood_text = [] \<or> strip mood_text = []
        then (Inl (ValueError ''Mood text cannot be empty''), [])
      else if \<not> truthy api_key
        then (Inl (ValueError ''OpenAI API key not found in environment variables''), [])
      else
        (let prompt = create_mood_analysis_prompt mood_text
         in (case sbind (chat prompt)
                    (\<lambda>content. extract_mood_components loads (strip content)) of
               Inl e \<Rightarrow> Inr (create_fallback_mood_analysis mood_text)
             | Inr mood_data \<Rightarrow> Inr mood_data,
             [prompt])))"

section \<open>image_generator.py: generate_mood_image\<close>

text \<open>
  The image endpoint returns the URLs of \<open>response.data\<close> or raises; the download returns
  a status code and the body or raises. \<open>b64encode\<close> is the standard library's encoder.
  The tag and genre lists are optional here because a caller can pass \<open>None\<close>, on which
  \<open>create_image_prompt\<close> raises TypeError when it slices the list.
\<close>

record image_service =
  images_generate :: "string \<Rightarrow> exn + string list"
  requests_get :: "string \<Rightarrow> exn + nat \<times> string"

definition image_attempt ::
  "image_service \<Rightarrow> (string \<Rightarrow> string) \<Rightarrow> string list option \<Rightarrow> string list option
     \<Rightarrow> string option \<Rightarrow> string list option \<Rightarrow> string option \<Rightarrow> string list option
     \<Rightarrow> string option \<Rightarrow> exn + string option" where
  "image_attempt service b64encode emotional_tags genres mood_text visual_imagery
       movement_quality color_palette energy_level =
     (case (emotional_tags, genres) of
        (Some tags, Some gs) \<Rightarrow>
          (let prompt = create_image_prompt tags gs mood_text visual_imagery movement_quality
                          color_palette energy_level
           in sbind (images_generate service prompt) (\<lambda>data.
              case data of
                [] \<Rightarrow> Inl IndexError
              | image_url # _ \<Rightarrow>
                  sbind (requests_get service image_url) (\<lambda>(status_code, content).
                  if status_code = 200 then Inr (Some (b64encode content)) else Inr None)))
      | _ \<Rightarrow> Inl TypeError)"

definition generate_mood_image ::
  "string option \<Rightarrow> image_service \<Rightarrow> (string \<Rightarrow> string) \<Rightarrow> string list option
     \<Rightarrow> string list option \<Rightarrow> string option \<Rightarrow> string list option \<Rightarrow> string option
     \<Rightarrow> string list option \<Rightarrow> string option \<Rightarrow> exn + string option" where
  "generate_mood_image api_key service b64encode emotional_tags genres mood_text
       visual_imagery movement_quality color_palette energy_level =
     (if \<not> truthy api_key then Inr None
      else case image_attempt service b64encode emotional_tags genres mood_text
                  visual_imagery movement_quality color_palette energy_level of
             Inl e \<Rightarrow> Inr None
           | Inr image_base64 \<Rightarrow> Inr image_base64)"

section \<open>Reference definitions and sample inputs\<close>

text \<open>
  The definitions of this section are not taken from the source. \<open>spec_query_batch\<close>,
  \<open>spec_first_two\<close> and \<open>claimed_quota\<close> write down what the specification says, to be
  compared with the code; the others are concrete inputs on which the theorems are applied.
\<close>

definition demo_catalog :: catalog where
  "demo_catalog =
     \<lparr>sp_current_user = Inr ''user1'',
      sp_search = (\<lambda>k q n. Inr []),
      sp_user_playlist_create = (\<lambda>u n p d. Inl (Exception ''offline'')),
      sp_playlist_add_items = (\<lambda>p ts. Inr ())\<rparr>"

definition demo_client :: spotify_client where
  "demo_client = snd (fst (authenticate demo_catalog (init ''id'' ''secret'' ''http://localhost'')))"

definition no_rnd :: "nat \<Rightarrow> nat" where "no_rnd i = 0"


definition spec_first_two :: "string \<Rightarrow> string list" where
  "spec_first_two level =
     (if level = ''low'' then [''chill'', ''ambient'']
      else if level = ''medium'' then [''groovy'', ''steady'']
      else if level = ''high'' then [''energetic'', ''powerful'']
      else [])"

definition primary_genre :: "string list \<Rightarrow> string" where
  "primary_genre genres = (case genres of [] \<Rightarrow> [] | g0 # _ \<Rightarrow> g0)"

definition spec_query_batch :: "string list \<Rightarrow> string list \<Rightarrow> string option \<Rightarrow> search_query list" where
  "spec_query_batch genres keywords energy_level =
     map (\<lambda>g. \<lparr>query = ''genre:'' @ g, weight = 4 / 10\<rparr>) genres
     @ concat (map (\<lambda>k. (if genres \<noteq> []
                            then [\<lparr>query = k @ '' genre:'' @ primary_genre genres, weight = 3 / 10\<rparr>]
                            else [])
                          @ [\<lparr>query = k, weight = 2 / 10\<rparr>])
                 (take 3 keywords))
     @ (case energy_level of
          None \<Rightarrow> []
        | Some level \<Rightarrow>
            map (\<lambda>t. \<lparr>query = t @ '' '' @ primary_genre genres, weight = 1 / 10\<rparr>)
              (spec_first_two level))"


text \<open>
  The specification's view of the result of a search: the tracks each query contributes,
  in the order the queries run (a failed query contributes nothing), concatenated, and of
  these the first occurrence of every uri.
\<close>

definition query_tracks :: "catalog \<Rightarrow> rat \<Rightarrow> int \<Rightarrow> nat \<Rightarrow> search_query \<Rightarrow> track list" where
  "query_tracks service total_weight limit k q =
     (case sp_search service k (query q) (tracks_needed total_weight limit q) of
        Inl e \<Rightarrow> []
      | Inr items \<Rightarrow> convert_items (query q) items)"

definition concatenated_results :: "catalog \<Rightarrow> rat \<Rightarrow> int \<Rightarrow> nat \<Rightarrow> search_query list \<Rightarrow> track list" where
  "concatenated_results service total_weight limit k0 qs =
     concat (map (\<lambda>(k, q). query_tracks service total_weight limit k q)
               (zip [k0..<k0 + length qs] qs))"

definition first_occurrences :: "track list \<Rightarrow> track list" where
  "first_occurrences xs =
     map (nth xs) (filter (\<lambda>i. uri (xs ! i) \<notin> uri ` set (take i xs)) [0..<length xs])"

definition search_pool ::
  "catalog \<Rightarrow> string list \<Rightarrow> int \<Rightarrow> string list option \<Rightarrow> string option \<Rightarrow> track list" where
  "search_pool service genres limit kws el =
     (let qs = build_search_queries genres (or_empty kws) el
      in first_occurrences
           (concatenated_results service (sum_list (map weight qs)) limit 0 qs))"

text \<open>A catalog with two genres that share a track, and a client authenticated against it.\<close>

definition item_a :: item where "item_a = Item ''Song A'' [''Artist A''] ''spotify:track:a'' None ''https://open.spotify.com/track/a''"
definition item_b :: item where "item_b = Item ''Song B'' [''Artist B''] ''spotify:track:b'' None ''https://open.spotify.com/track/b''"
definition item_c :: item where "item_c = Item ''Song C'' [''Artist C''] ''spotify:track:c'' None ''https://open.spotify.com/track/c''"

definition shop_catalog :: catalog where
  "shop_catalog =
     \<lparr>sp_current_user = Inr ''user1'',
      sp_search = (\<lambda>k q n.
         if q = ''genre:rock'' then Inr (take (nat n) [item_a, item_b])
         else if q = ''genre:pop'' then Inr (take (nat n) [item_b, item_c])
         else Inl (Exception ''search failed'')),
      sp_user_playlist_create = (\<lambda>u n p d. Inl (Exception ''offline'')),
      sp_playlist_add_items = (\<lambda>p ts. Inr ())\<rparr>"

definition shop_client :: spotify_client where
  "shop_client = snd (fst (authenticate shop_catalog (init ''id'' ''secret'' ''http://localhost'')))"


text \<open>The mood texts that \<open>analyze_mood\<close> rejects: empty or made of whitespace only.\<close>

definition blank :: "string \<Rightarrow> bool" where
  "blank s = list_all is_space s"

text \<open>A completion endpoint that is down, one that answers in prose, and a parser that rejects.\<close>

definition silent_chat :: "string \<Rightarrow> exn + string" where
  "silent_chat prompt = Inl (Exception ''connection refused'')"

definition no_json :: "string \<Rightarrow> json option" where
  "no_json text = None"

definition garbled_chat :: "string \<Rightarrow> exn + string" where
  "garbled_chat prompt = Inr ''Sure! Here is your playlist''"

text \<open>
  The shape of a well-typed response, in the specification's terms: a field that is a
  string or absent, a field that can be sliced or is absent, the value a string field
  contributes, a list or string field cut to its cap, the first three entries of a list
  trimmed and lower-cased, and a required field that is missing, of the wrong type or
  empty.
\<close>

fun str_of :: "json \<Rightarrow> string" where
  "str_of (JStr s) = s"
| "str_of _ = []"

fun is_str :: "json \<Rightarrow> bool" where
  "is_str (JStr s) = True"
| "is_str _ = False"

fun str_or_absent :: "json option \<Rightarrow> bool" where
  "str_or_absent None = True"
| "str_or_absent (Some v) = is_str v"

fun sliceable_or_absent :: "json option \<Rightarrow> bool" where
  "sliceable_or_absent None = True"
| "sliceable_or_absent (Some (JList xs)) = True"
| "sliceable_or_absent (Some (JStr s)) = True"
| "sliceable_or_absent (Some _) = False"

fun opt_str :: "string \<Rightarrow> json option \<Rightarrow> string" where
  "opt_str dflt None = dflt"
| "opt_str dflt (Some v) = str_of v"

fun capped :: "nat \<Rightarrow> json option \<Rightarrow> json" where
  "capped n None = JList []"
| "capped n (Some (JList xs)) = JList (take n xs)"
| "capped n (Some (JStr s)) = JStr (take n s)"
| "capped n (Some v) = v"

definition cleaned :: "json list \<Rightarrow> json" where
  "cleaned xs = JList (map (\<lambda>t. JStr (lower (strip (str_of t)))) (take 3 xs))"

fun bad_list :: "json option \<Rightarrow> bool" where
  "bad_list None = True"
| "bad_list (Some (JList xs)) = (xs = [])"
| "bad_list (Some _) = True"

fun bad_name :: "json option \<Rightarrow> bool" where
  "bad_name None = True"
| "bad_name (Some (JStr s)) = (strip s = [])"
| "bad_name (Some _) = True"

text \<open>
  Three responses and what the parser makes of them: a well-formed one inside a Markdown
  fence, one whose tag list holds a number, and one without genres.
\<close>

definition fence :: string where
  "fence = replicate 3 (CHR 0x60)"

definition good_text :: string where
  "good_text = concat
     [''{'', dq, ''emotional_tags'', dq, '': ['', dq, '' Calm '', dq, '', '', dq, ''DREAMY'', dq,
      '', '', dq, ''soft'', dq, '', '', dq, ''extra'', dq, ''], '',
      dq, ''genres'', dq, '': ['', dq, ''Ambient'', dq, ''], '',
      dq, ''playlist_name'', dq, '': '', dq, ''  Dawn Mist  '', dq, '', '',
      dq, ''energy_level'', dq, '': '', dq, ''LOW'', dq, ''}'']"

definition good_json :: json where
  "good_json = JObj
     [(''emotional_tags'', JList [JStr '' Calm '', JStr ''DREAMY'', JStr ''soft'', JStr ''extra'']),
      (''genres'', JList [JStr ''Ambient'']),
      (''playlist_name'', JStr ''  Dawn Mist  ''),
      (''energy_level'', JStr ''LOW'')]"

definition fenced_response :: string where
  "fenced_response = fence @ ''json'' @ nl @ good_text @ nl @ fence"

definition number_tag_text :: string where
  "number_tag_text = concat
     [''{'', dq, ''emotional_tags'', dq, '': [1], '',
      dq, ''genres'', dq, '': ['', dq, ''rock'', dq, ''], '',
      dq, ''playlist_name'', dq, '': '', dq, ''Mix'', dq, ''}'']"

definition number_tag_json :: json where
  "number_tag_json = JObj
     [(''emotional_tags'', JList [JNum 1]),
      (''genres'', JList [JStr ''rock'']),
      (''playlist_name'', JStr ''Mix'')]"

definition no_genres_text :: string where
  "no_genres_text = concat
     [''{'', dq, ''emotional_tags'', dq, '': ['', dq, ''calm'', dq, ''], '',
      dq, ''playlist_name'', dq, '': '', dq, ''Mix'', dq, ''}'']"

definition no_genres_json :: json where
  "no_genres_json = JObj
     [(''emotional_tags'', JList [JStr ''calm'']),
      (''playlist_name'', JStr ''Mix'')]"

definition sample_loads :: "string \<Rightarrow> json option" where
  "sample_loads text =
     (if text = good_text then Some good_json
      else if text = number_tag_text then Some number_tag_json
      else if text = no_genres_text then Some no_genres_json
      else None)"

text \<open>An image endpoint that is down, and one whose image cannot be downloaded.\<close>

definition offline_images :: image_service where
  "offline_images =
     \<lparr>images_generate = (\<lambda>prompt. Inl (Exception ''connection refused'')),
      requests_get = (\<lambda>u. Inr (404, []))\<rparr>"

definition broken_download :: image_service where
  "broken_download =
     \<lparr>images_generate = (\<lambda>prompt. Inr [''https://images.example/1.png'']),
      requests_get = (\<lambda>u. Inr (404, ''Not Found''))\<rparr>"

definition plain_b64 :: "string \<Rightarrow> string" where
  "plain_b64 content = content"


section \<open>Properties\<close>

subsection \<open>Prompt length\<close>

lemma create_image_prompt_le: "length (create_image_prompt a b c d e f g) \<le> 903"
  by (simp add: create_image_prompt_def Let_def)

lemma create_video_prompt_le: "length (create_video_prompt a b c d e f g) \<le> 803"
  by (simp add: create_video_prompt_def Let_def)

text \<open>
  Claim C1: the image prompt has at most 900 characters and the video prompt at most 800.
  Both composers cut an over-long prompt to the budget and then append an ellipsis of
  three characters, so a cut prompt has 903 and 803 characters. The theorem evaluates both
  composers on a profile whose single imagery entry is longer than the budget.
\<close>

theorem prompt_budget_exceeded:
  "length (create_image_prompt [''calm''] [''folk''] None (Some [replicate 900 (CHR ''a'')]) None None None) = 903
   \<and> length (create_video_prompt [''calm''] [''folk''] (Some ''calm'') (Some [replicate 800 (CHR ''a'')]) None None None) = 803"
  by (simp add: create_image_prompt_def image_prompt_parts_def image_core_def or_empty_def
      or_default_def truthy_def image_energy_qualities_def image_emotion_colors_def
      image_genre_styles_def image_emotion_styles_def Let_def
      create_video_prompt_def video_prompt_parts_def video_core_def video_energy_movements_def
      video_emotion_colors_def video_genre_styles_def)

subsection \<open>The calls made by search_tracks\<close>

lemma sp_demo: "sp demo_client = Some demo_catalog"
  by (simp add: demo_client_def authenticate_def demo_catalog_def init_def)

lemma run_queries_calls:
  "fst (run_queries service tw limit qs calls all_tracks)
     = calls @ map (\<lambda>q. Search (query q) (tracks_needed tw limit q)) qs"
  by (induction qs arbitrary: calls all_tracks) (auto simp: Let_def split: sum.splits)

lemma search_tracks_calls:
  "sp self = Some service \<Longrightarrow>
   snd (search_tracks self rnd genres limit kws el tf)
     = map (\<lambda>q. Search (query q)
              (tracks_needed (sum_list (map weight (build_search_queries genres (or_empty kws) el))) limit q))
         (build_search_queries genres (or_empty kws) el)"
  using run_queries_calls[of service _ limit _ "[]" "[]"]
  by (simp add: search_tracks_def Let_def split: prod.splits) (metis fst_conv)

lemma fold_genre_step: "fold genre_step gs acc = acc @ map (\<lambda>g. \<lparr>query = ''genre:'' @ g, weight = 4 / 10\<rparr>) gs"
  by (induction gs arbitrary: acc) (simp_all add: genre_step_def)

lemma fold_keyword_step:
  "fold (keyword_step genres) ks acc
     = acc @ concat (map (\<lambda>k. (if genres \<noteq> []
                            then [\<lparr>query = k @ '' genre:'' @ primary_genre genres, weight = 3 / 10\<rparr>]
                            else [])
                          @ [\<lparr>query = k, weight = 2 / 10\<rparr>]) ks)"
  by (induction ks arbitrary: acc)
     (auto simp: keyword_step_def primary_genre_def Let_def split: list.splits)

lemma fold_energy_step:
  "fold (energy_step genres) ts acc
     = acc @ map (\<lambda>t. \<lparr>query = t @ '' '' @ primary_genre genres, weight = 1 / 10\<rparr>) ts"
  by (induction ts arbitrary: acc) (simp_all add: energy_step_def primary_genre_def)

lemma energy_terms_cases:
  "energy_terms level = (if level = ''low'' then Some [''chill'', ''ambient'', ''calm'', ''peaceful'']
      else if level = ''medium'' then Some [''groovy'', ''steady'', ''flowing'']
      else if level = ''high'' then Some [''energetic'', ''powerful'', ''intense'', ''upbeat'']
      else None)"
  by (simp add: energy_terms_def)

lemma build_is_spec: "build_search_queries genres keywords energy_level = spec_query_batch genres keywords energy_level"
proof (cases energy_level)
  case None
  then show ?thesis
    by (simp add: build_search_queries_def spec_query_batch_def truthy_def Let_def
        fold_genre_step fold_keyword_step)
next
  case (Some level)
  show ?thesis
  proof (cases "level = []")
    case True
    then show ?thesis using Some
      by (simp add: build_search_queries_def spec_query_batch_def truthy_def Let_def
        fold_genre_step fold_keyword_step spec_first_two_def)
  next
    case False
    then show ?thesis using Some
      by (simp add: build_search_queries_def spec_query_batch_def truthy_def Let_def
        fold_genre_step fold_keyword_step energy_step_def primary_genre_def energy_terms_cases
        spec_first_two_def)
  qed
qed

text \<open>
  Claim C4, amended: the query batch that \<open>search_tracks\<close> builds and sends, in order, is
  one \<open>genre:g\<close> query of weight 0.4 per genre; then for each of the first three keywords a
  query \<open>keyword genre:primary\<close> of weight 0.3, only when there is a genre, followed by the
  keyword alone with weight 0.2; then, for an energy level low, medium or high, one query
  \<open>term primary-or-empty\<close> of weight 0.1 for each of the first two terms of that level's
  table. The tables of low and high have four terms, the table of medium has three.
\<close>

theorem query_batch:
  "sp self = Some service \<Longrightarrow>
     build_search_queries genres (or_empty kws) el = spec_query_batch genres (or_empty kws) el
     \<and> map call_query (snd (search_tracks self rnd genres limit kws el tf))
         = map query (spec_query_batch genres (or_empty kws) el)"
  using search_tracks_calls[of self service rnd genres limit kws el tf]
  by (simp add: build_is_spec comp_def)

text \<open>The batch of a client with one genre, one keyword and medium energy.\<close>

theorem query_batch_witness:
  "sp demo_client = Some demo_catalog
   \<and> map call_query (snd (search_tracks demo_client no_rnd [''rock''] 10 (Some [''victory'']) (Some ''medium'') None))
       = [''genre:rock'', ''victory genre:rock'', ''victory'', ''groovy rock'', ''steady rock'']"
  using query_batch[OF sp_demo, where genres = "[''rock'']" and kws = "Some [''victory'']"
          and el = "Some ''medium''" and rnd = no_rnd and limit = 10 and tf = None]
  by (simp add: sp_demo spec_query_batch_def spec_first_two_def primary_genre_def or_empty_def)

text \<open>Claim C4 as stated speaks of a four-term table per level; the medium table has three.\<close>

theorem medium_table_three_terms:
  "map_option length (energy_terms ''medium'') = Some 3"
  by (simp add: energy_terms_def)




subsection \<open>Calls before authentication\<close>



subsection \<open>The tempo argument\<close>

text \<open>
  Claim C10: \<open>tempo_feeling\<close> has no effect on \<open>search_tracks\<close>: two calls that differ
  only in it issue the same queries and return the same tracks. The table \<open>tempo_terms\<close>
  is declared and never read.
\<close>

theorem tempo_feeling_ignored:
  "search_tracks self rnd genres limit kws el tempo1 = search_tracks self rnd genres limit kws el tempo2"
  by (simp add: search_tracks_def)

subsection \<open>The result of search_tracks\<close>

lemma concatenated_results_Nil: "concatenated_results service tw limit k [] = []"
  by (simp add: concatenated_results_def)

lemma concatenated_results_Cons:
  "concatenated_results service tw limit k (q # qs)
     = query_tracks service tw limit k q @ concatenated_results service tw limit (Suc k) qs"
proof -
  have "[k..<k + length (q # qs)] = k # [Suc k..<Suc k + length qs]"
    using upt_conv_Cons[of k "k + length (q # qs)"] by simp
  then show ?thesis
    unfolding concatenated_results_def by simp
qed

lemma run_queries_tracks:
  "snd (run_queries service tw limit qs calls all_tracks)
     = all_tracks @ concatenated_results service tw limit (length calls) qs"
proof (induction qs arbitrary: calls all_tracks)
  case Nil
  then show ?case by (simp add: concatenated_results_Nil)
next
  case (Cons q qs)
  show ?case
    by (cases "sp_search service (length calls) (query q) (tracks_needed tw limit q)")
       (simp_all add: Let_def Cons.IH concatenated_results_Cons query_tracks_def)
qed

lemma dedup_filter:
  "dedup seen xs
     = map (nth xs) (filter (\<lambda>i. uri (xs ! i) \<notin> seen \<union> uri ` set (take i xs)) [0..<length xs])"
proof (induction xs arbitrary: seen)
  case Nil
  then show ?case by simp
next
  case (Cons t ts)
  have upt: "[0..<length (t # ts)] = 0 # map Suc [0..<length ts]"
    by (simp add: upt_conv_Cons map_Suc_upt del: upt_Suc)
  have same: "\<And>P Q. (\<And>i. P i = Q i)
                 \<Longrightarrow> map ((!) ts) (filter P [0..<length ts]) = map ((!) ts) (filter Q [0..<length ts])"
    by presburger
  show ?case
    by (simp only: upt) (auto simp: Cons.IH filter_map comp_def intro!: same)
qed

lemma dedup_first_occurrences: "dedup {} xs = first_occurrences xs"
  by (simp add: dedup_filter first_occurrences_def)

lemma dedup_distinct: "distinct (map uri (dedup seen xs)) \<and> uri ` set (dedup seen xs) \<inter> seen = {}"
  by (induction xs arbitrary: seen) auto

lemma shuffle_from_Nil: "shuffle_from rnd i [] = []"
  by (induction i) (simp_all add: Let_def)

lemma mset_shuffle_from: "i < length xs \<or> xs = [] \<Longrightarrow> mset (shuffle_from rnd i xs) = mset xs"
proof (induction i arbitrary: xs)
  case 0
  then show ?case by simp
next
  case (Suc i)
  show ?case
  proof (cases "xs = []")
    case True
    then show ?thesis by (simp add: shuffle_from_Nil)
  next
    case False
    with Suc.prems have lt: "Suc i < length xs" by simp
    let ?j = "rnd (Suc i) mod (Suc i + 1)"
    have j: "?j < length xs" using lt by (simp add: less_trans_Suc mod_less_divisor[THEN less_le_trans])
    have "mset (xs[Suc i := xs ! ?j, ?j := xs ! Suc i]) = mset xs"
      using mset_swap[OF j lt] .
    moreover have "i < length (xs[Suc i := xs ! ?j, ?j := xs ! Suc i])" using lt by simp
    ultimately show ?thesis using Suc.IH[of "xs[Suc i := xs ! ?j, ?j := xs ! Suc i]"]
      by (simp add: Let_def)
  qed
qed

lemma mset_shuffle: "mset (shuffle rnd xs) = mset xs"
  unfolding shuffle_def by (rule mset_shuffle_from) (cases xs; simp)

lemma search_tracks_result:
  "sp self = Some service \<Longrightarrow>
   fst (search_tracks self rnd genres limit kws el tf)
     = Inr (py_take limit (shuffle rnd (search_pool service genres limit kws el)))"
  using run_queries_tracks[of service _ limit _ "[]" "[]"]
  by (simp add: search_tracks_def search_pool_def Let_def dedup_first_occurrences
      split: prod.splits) (metis snd_conv)

lemma pool_distinct: "distinct (map uri (first_occurrences xs))"
  using dedup_distinct[of "{}" xs] by (simp add: dedup_first_occurrences)

text \<open>
  Claim C3, amended: for every authenticated session, every genre, keyword and energy
  input and every limit \<open>L \<ge> 0\<close>, the list returned by \<open>search_tracks\<close> has no two tracks
  with the same uri, has length at most \<open>L\<close>, is the first \<open>L\<close> entries of a permutation of
  the pool (the concatenated per-query results, deduplicated by uri keeping the first
  occurrence), and is the whole pool, permuted, when the pool has fewer than \<open>L\<close> tracks;
  no error is raised.
\<close>

theorem search_result_shape:
  assumes "sp self = Some service" and "0 \<le> limit"
  shows "\<exists>result perm.
           fst (search_tracks self rnd genres limit kws el tf) = Inr result
           \<and> distinct (map uri result)
           \<and> int (length result) \<le> limit
           \<and> mset perm = mset (search_pool service genres limit kws el)
           \<and> result = take (nat limit) perm
           \<and> (int (length (search_pool service genres limit kws el)) < limit
                \<longrightarrow> mset result = mset (search_pool service genres limit kws el))"
proof -
  let ?pool = "search_pool service genres limit kws el"
  let ?perm = "shuffle rnd ?pool"
  let ?result = "take (nat limit) ?perm"
  have res: "fst (search_tracks self rnd genres limit kws el tf) = Inr ?result"
    using search_tracks_result[OF assms(1)] assms(2) by (simp add: py_take_def)
  have perm: "mset ?perm = mset ?pool" by (rule mset_shuffle)
  have "mset (map uri ?perm) = mset (map uri ?pool)" using perm by simp
  moreover have "distinct (map uri ?pool)"
    unfolding search_pool_def Let_def by (rule pool_distinct)
  ultimately have "distinct (map uri ?perm)" using mset_eq_imp_distinct_iff by blast
  then have d: "distinct (map uri ?result)" by (simp add: take_map[symmetric])
  have len: "int (length ?result) \<le> limit" using assms(2) by simp
  have "length ?perm = length ?pool" using perm by (rule mset_eq_length)
  then have all: "int (length ?pool) < limit \<longrightarrow> mset ?result = mset ?pool"
    using perm by simp
  show ?thesis using res d len perm all by blast
qed

lemma sp_shop: "sp shop_client = Some shop_catalog"
  by (simp add: shop_client_def authenticate_def shop_catalog_def init_def)

lemma shop_pool:
  "map uri (search_pool shop_catalog [''rock'', ''pop''] 10 None None)
     = [''spotify:track:a'', ''spotify:track:b'', ''spotify:track:c'']"
  by code_simp

text \<open>Two genres sharing a track, limit 10: the pool has three tracks and all are returned.\<close>

theorem search_result_shape_witness:
  "sp shop_client = Some shop_catalog \<and> (0::int) \<le> 10
   \<and> map uri (search_pool shop_catalog [''rock'', ''pop''] 10 None None)
       = [''spotify:track:a'', ''spotify:track:b'', ''spotify:track:c'']
   \<and> (\<exists>result. fst (search_tracks shop_client no_rnd [''rock'', ''pop''] 10 None None None) = Inr result
         \<and> distinct (map uri result) \<and> int (length result) \<le> 10
         \<and> mset result = mset (search_pool shop_catalog [''rock'', ''pop''] 10 None None))"
proof -
  have small: "int (length (search_pool shop_catalog [''rock'', ''pop''] 10 None None)) < 10"
    using arg_cong[OF shop_pool, of length] by simp
  from search_result_shape[OF sp_shop, of 10 no_rnd "[''rock'', ''pop'']" None None None] small
  show ?thesis using sp_shop shop_pool by auto
qed

lemma shop_search_minus_one:
  "fst (search_tracks shop_client no_rnd [''rock'', ''pop''] (- 1) None None None)
     = Inr [\<lparr>name = ''Song B'', artist = ''Artist B'', uri = ''spotify:track:b'',
             preview_url = None, external_url = ''https://open.spotify.com/track/b'',
             search_source = ''genre:pop''\<rparr>]"
  by code_simp

text \<open>
  Claim C3 as stated covers every limit. With limit \<open>-1\<close> each query still asks for one
  track, and the slice \<open>[:-1]\<close> drops the last of the two shuffled tracks: the result has
  one track, which is more than the limit.
\<close>

theorem negative_limit_counterexample:
  "fst (search_tracks shop_client no_rnd [''rock'', ''pop''] (- 1) None None None)
     = Inr [\<lparr>name = ''Song B'', artist = ''Artist B'', uri = ''spotify:track:b'',
             preview_url = None, external_url = ''https://open.spotify.com/track/b'',
             search_source = ''genre:pop''\<rparr>]
   \<and> \<not> int (length [\<lparr>name = ''Song B'', artist = ''Artist B'', uri = ''spotify:track:b'',
             preview_url = None, external_url = ''https://open.spotify.com/track/b'',
             search_source = ''genre:pop''\<rparr>]) \<le> - 1"
  using shop_search_minus_one by simp

subsection \<open>analyze_mood: rejected inputs\<close>

lemma strip_empty_iff: "strip s = [] \<longleftrightarrow> list_all is_space s"
proof
  assume "strip s = []"
  then have all: "\<forall>x\<in>set (dropWhile is_space s). is_space x"
    by (simp add: strip_def dropWhile_eq_Nil_conv)
  have "dropWhile is_space s = []"
  proof (rule ccontr)
    assume ne: "dropWhile is_space s \<noteq> []"
    then have "\<not> is_space (hd (dropWhile is_space s))" by (rule hd_dropWhile)
    moreover have "hd (dropWhile is_space s) \<in> set (dropWhile is_space s)" using ne by simp
    ultimately show False using all by blast
  qed
  then show "list_all is_space s" by (simp add: dropWhile_eq_Nil_conv list_all_iff)
next
  assume "list_all is_space s"
  then have d: "dropWhile is_space s = []" by (simp add: dropWhile_eq_Nil_conv list_all_iff)
  show "strip s = []" unfolding strip_def d by simp
qed

text \<open>
  Claim C7: \<open>analyze_mood\<close> fails with the invalid-input error for every mood text that is
  empty or whitespace-only, before any remote call, and with the configuration error for
  every other mood text when the environment holds no API key. Both are \<open>ValueError\<close>s,
  told apart by their message.
\<close>

theorem analyze_mood_rejects:
  "(blank mood_text \<longrightarrow>
      analyze_mood api_key chat loads mood_text
        = (Inl (ValueError ''Mood text cannot be empty''), []))
   \<and> (\<not> blank mood_text \<and> (api_key = None \<or> api_key = Some []) \<longrightarrow>
      analyze_mood api_key chat loads mood_text
        = (Inl (ValueError ''OpenAI API key not found in environment variables''), []))"
  by (auto simp: analyze_mood_def blank_def strip_empty_iff truthy_def)

text \<open>A text of two spaces with a key, and a proper text without a key.\<close>

theorem analyze_mood_rejects_witness:
  "blank ''  '' \<and> analyze_mood (Some ''sk-key'') silent_chat no_json ''  ''
        = (Inl (ValueError ''Mood text cannot be empty''), [])
   \<and> \<not> blank ''calm evening'' \<and> analyze_mood None silent_chat no_json ''calm evening''
        = (Inl (ValueError ''OpenAI API key not found in environment variables''), [])"
  using analyze_mood_rejects[of "''  ''" "Some ''sk-key''" silent_chat no_json]
        analyze_mood_rejects[of "''calm evening''" None silent_chat no_json]
  by (simp add: blank_def is_space_def)

subsection \<open>analyze_mood: the fallback\<close>

lemma py_in_sublist: "py_in sub s \<longleftrightarrow> sublist sub s"
  by (induction s) (auto simp: sublist_Cons_right)

lemma lower_fixed: "lower ''calm'' = ''calm''"
  by (simp add: lower_def lower_char_def)

lemma calm_in_lower: "py_in ''calm'' s \<Longrightarrow> py_in ''calm'' (lower s)"
proof -
  assume "py_in ''calm'' s"
  then obtain ps ss where "s = ps @ ''calm'' @ ss"
    unfolding py_in_sublist sublist_def by blast
  then have "lower s = lower ps @ lower ''calm'' @ lower ss"
    by (simp add: lower_def)
  then show ?thesis
    unfolding py_in_sublist sublist_def lower_fixed by blast
qed

lemma request_sent_iff:
  "snd (analyze_mood api_key chat loads mood_text) \<noteq> []
     \<longleftrightarrow> strip mood_text \<noteq> [] \<and> truthy api_key"
  by (auto simp: analyze_mood_def Let_def strip_def)

text \<open>
  Claim C5: when the completion call raises, or its response is malformed JSON, or the
  response fails validation, \<open>analyze_mood\<close> returns the fallback's result for the mood
  text and does not raise. The hypothesis says that a completion request was sent, which
  is the case exactly for a mood text that is not blank with a key present. A mood text
  containing \<open>calm\<close> gets tags calm, peaceful, genres ambient, folk and the name Peaceful
  Moments; the four keyword buckets map to their canned triples, the first matching
  bucket winning.
\<close>

theorem fallback_on_failure:
  assumes "snd (analyze_mood api_key chat loads mood_text) \<noteq> []"
  shows "(chat (create_mood_analysis_prompt mood_text) = Inl e \<longrightarrow>
            fst (analyze_mood api_key chat loads mood_text)
              = Inr (create_fallback_mood_analysis mood_text))
       \<and> (chat (create_mood_analysis_prompt mood_text) = Inr content
            \<and> loads (clean_response (strip content)) = None \<longrightarrow>
            fst (analyze_mood api_key chat loads mood_text)
              = Inr (create_fallback_mood_analysis mood_text))
       \<and> (chat (create_mood_analysis_prompt mood_text) = Inr content
            \<and> extract_mood_components loads (strip content) = Inl e \<longrightarrow>
            fst (analyze_mood api_key chat loads mood_text)
              = Inr (create_fallback_mood_analysis mood_text))
       \<and> (py_in ''calm'' mood_text \<longrightarrow>
            create_fallback_mood_analysis mood_text
              = canned [''calm'', ''peaceful''] [''ambient'', ''folk''] ''Peaceful Moments'')
       \<and> create_fallback_mood_analysis mood_text
            = (if any_word [''calm'', ''peaceful'', ''relaxed'', ''serene''] (lower mood_text)
                 then canned [''calm'', ''peaceful''] [''ambient'', ''folk''] ''Peaceful Moments''
               else if any_word [''happy'', ''excited'', ''energetic'', ''pumped''] (lower mood_text)
                 then canned [''happy'', ''energetic''] [''pop'', ''electronic''] ''Energy Boost''
               else if any_word [''sad'', ''melancholy'', ''down'', ''blue''] (lower mood_text)
                 then canned [''melancholic'', ''reflective''] [''folk'', ''indie''] ''Reflection Time''
               else canned [''contemplative'', ''mixed''] [''indie'', ''alternative''] ''Mixed Feelings'')"
proof -
  have sent: "strip mood_text \<noteq> []" "truthy api_key"
    using assms by (simp_all add: request_sent_iff)
  have ne: "mood_text \<noteq> []" using sent(1) by (auto simp: strip_def)
  have a: "chat (create_mood_analysis_prompt mood_text) = Inl e \<Longrightarrow>
            fst (analyze_mood api_key chat loads mood_text)
              = Inr (create_fallback_mood_analysis mood_text)"
    using sent ne by (simp add: analyze_mood_def Let_def sbind_def)
  have b: "chat (create_mood_analysis_prompt mood_text) = Inr content
            \<Longrightarrow> loads (clean_response (strip content)) = None \<Longrightarrow>
            fst (analyze_mood api_key chat loads mood_text)
              = Inr (create_fallback_mood_analysis mood_text)"
    using sent ne by (simp add: analyze_mood_def Let_def sbind_def extract_mood_components_def)
  have c: "chat (create_mood_analysis_prompt mood_text) = Inr content
            \<Longrightarrow> extract_mood_components loads (strip content) = Inl e \<Longrightarrow>
            fst (analyze_mood api_key chat loads mood_text)
              = Inr (create_fallback_mood_analysis mood_text)"
    using sent ne by (simp add: analyze_mood_def Let_def sbind_def)
  have d: "py_in ''calm'' mood_text \<Longrightarrow>
            create_fallback_mood_analysis mood_text
              = canned [''calm'', ''peaceful''] [''ambient'', ''folk''] ''Peaceful Moments''"
    using calm_in_lower[of mood_text]
    by (simp add: create_fallback_mood_analysis_def any_word_def Let_def)
  have e: "create_fallback_mood_analysis mood_text
            = (if any_word [''calm'', ''peaceful'', ''relaxed'', ''serene''] (lower mood_text)
                 then canned [''calm'', ''peaceful''] [''ambient'', ''folk''] ''Peaceful Moments''
               else if any_word [''happy'', ''excited'', ''energetic'', ''pumped''] (lower mood_text)
                 then canned [''happy'', ''energetic''] [''pop'', ''electronic''] ''Energy Boost''
               else if any_word [''sad'', ''melancholy'', ''down'', ''blue''] (lower mood_text)
                 then canned [''melancholic'', ''reflective''] [''folk'', ''indie''] ''Reflection Time''
               else canned [''contemplative'', ''mixed''] [''indie'', ''alternative''] ''Mixed Feelings'')"
    by (simp add: create_fallback_mood_analysis_def Let_def)
  show ?thesis using a b c d e by blast
qed

text \<open>A response in prose, which the parser rejects, for a mood text containing \<open>calm\<close>.\<close>

theorem fallback_on_failure_witness:
  "snd (analyze_mood (Some ''sk-key'') garbled_chat no_json ''a calm evening'') \<noteq> []
   \<and> garbled_chat (create_mood_analysis_prompt ''a calm evening'') = Inr ''Sure! Here is your playlist''
   \<and> no_json (clean_response (strip ''Sure! Here is your playlist'')) = None
   \<and> py_in ''calm'' ''a calm evening''
   \<and> fst (analyze_mood (Some ''sk-key'') garbled_chat no_json ''a calm evening'')
        = Inr [(''emotional_tags'', JList [JStr ''calm'', JStr ''peaceful'']),
               (''genres'', JList [JStr ''ambient'', JStr ''folk'']),
               (''playlist_name'', JStr ''Peaceful Moments'')]"
proof -
  have h1: "snd (analyze_mood (Some ''sk-key'') garbled_chat no_json ''a calm evening'') \<noteq> []"
    by (simp add: request_sent_iff strip_def is_space_def truthy_def)
  have h2: "py_in ''calm'' ''a calm evening''" by simp
  from fallback_on_failure[OF h1, of "Exception []" "''Sure! Here is your playlist''"]
  show ?thesis using h1 h2 by (simp add: garbled_chat_def no_json_def canned_def)
qed

subsection \<open>extract_mood_components\<close>

lemma map_of_set_item: "map_of (set_item k v d) k' = (if k' = k then Some v else map_of d k')"
  by (simp add: set_item_def update_conv')

lemma str_method_get:
  "str_or_absent (map_of d k) \<Longrightarrow>
   str_method (get_default d k (JStr dflt)) = Inr (opt_str dflt (map_of d k))"
  by (cases "map_of d k"; simp add: get_default_def)
     (metis is_str.elims(2) str_method.simps(1) str_of.simps(1))

lemma slice_get:
  "sliceable_or_absent (map_of d k) \<Longrightarrow>
   slice_to n (get_default d k (JList [])) = Inr (capped n (map_of d k))"
proof (cases "map_of d k")
  case None
  then show ?thesis by (simp add: get_default_def)
next
  case (Some v)
  assume "sliceable_or_absent (map_of d k)"
  then show ?thesis using Some by (cases v) (simp_all add: get_default_def)
qed

lemma clean_entries_strings:
  "list_all is_str xs \<Longrightarrow>
   clean_entries xs = Inr (map (\<lambda>t. JStr (lower (strip (str_of t)))) xs)"
proof (induction xs)
  case Nil
  then show ?case by simp
next
  case (Cons x xs)
  then obtain s where "x = JStr s" by (cases x) simp_all
  then show ?case using Cons by (simp add: sbind_def)
qed

lemma fill_optional_ok:
  assumes "str_or_absent (map_of d ''energy_level'')"
      and "str_or_absent (map_of d ''tempo_feeling'')"
      and "sliceable_or_absent (map_of d ''visual_imagery'')"
      and "str_or_absent (map_of d ''movement_quality'')"
      and "sliceable_or_absent (map_of d ''color_palette'')"
      and "sliceable_or_absent (map_of d ''search_keywords'')"
  shows "\<exists>out. fill_optional d = Inr out
           \<and> map_of out = (map_of d)
               (''energy_level'' \<mapsto> JStr (lower (opt_str ''medium'' (map_of d ''energy_level''))),
                ''tempo_feeling'' \<mapsto> JStr (lower (opt_str ''moderate'' (map_of d ''tempo_feeling''))),
                ''visual_imagery'' \<mapsto> capped 5 (map_of d ''visual_imagery''),
                ''movement_quality'' \<mapsto> JStr (take 100 (strip (opt_str [] (map_of d ''movement_quality'')))),
                ''color_palette'' \<mapsto> capped 3 (map_of d ''color_palette''),
                ''search_keywords'' \<mapsto> capped 5 (map_of d ''search_keywords''))"
  using assms
  by (simp add: fill_optional_def sbind_def Let_def str_method_get slice_get map_of_set_item fun_eq_iff)

lemma bad_list_iff: "bad_list (Some v) \<longleftrightarrow> nonempty_list v = None"
  by (cases v) simp_all

lemma bad_name_iff: "bad_name (Some v) \<longleftrightarrow> nonblank_str v = None"
  by (cases v) simp_all

lemma validate_ok:
  assumes "map_of d ''emotional_tags'' = Some (JList tags)" and "tags \<noteq> []"
      and "list_all is_str (take 3 tags)"
      and "map_of d ''genres'' = Some (JList gs)" and "gs \<noteq> []"
      and "list_all is_str (take 3 gs)"
      and "map_of d ''playlist_name'' = Some (JStr pn)" and "strip pn \<noteq> []"
      and "str_or_absent (map_of d ''energy_level'')"
      and "str_or_absent (map_of d ''tempo_feeling'')"
      and "sliceable_or_absent (map_of d ''visual_imagery'')"
      and "str_or_absent (map_of d ''movement_quality'')"
      and "sliceable_or_absent (map_of d ''color_palette'')"
      and "sliceable_or_absent (map_of d ''search_keywords'')"
  shows "\<exists>out. validate (JObj d) = Inr out
           \<and> map_of out = (map_of d)
               (''emotional_tags'' \<mapsto> cleaned tags,
                ''genres'' \<mapsto> cleaned gs,
                ''playlist_name'' \<mapsto> JStr (take 50 (strip pn)),
                ''energy_level'' \<mapsto> JStr (lower (opt_str ''medium'' (map_of d ''energy_level''))),
                ''tempo_feeling'' \<mapsto> JStr (lower (opt_str ''moderate'' (map_of d ''tempo_feeling''))),
                ''visual_imagery'' \<mapsto> capped 5 (map_of d ''visual_imagery''),
                ''movement_quality'' \<mapsto> JStr (take 100 (strip (opt_str [] (map_of d ''movement_quality'')))),
                ''color_palette'' \<mapsto> capped 3 (map_of d ''color_palette''),
                ''search_keywords'' \<mapsto> capped 5 (map_of d ''search_keywords''))"
proof -
  let ?d3 = "set_item ''playlist_name'' (JStr (take 50 (strip pn)))
               (set_item ''genres'' (cleaned gs) (set_item ''emotional_tags'' (cleaned tags) d))"
  have req: "missing_field (JObj d) required_fields = Inr None"
    using assms(1,4,7) by (simp add: required_fields_def)
  have vd: "validate_dict d = fill_optional ?d3"
    using assms(1-8)
    by (simp add: validate_dict_def clean_entries_strings sbind_def cleaned_def Let_def)
  have opt: "str_or_absent (map_of ?d3 ''energy_level'')"
            "str_or_absent (map_of ?d3 ''tempo_feeling'')"
            "sliceable_or_absent (map_of ?d3 ''visual_imagery'')"
            "str_or_absent (map_of ?d3 ''movement_quality'')"
            "sliceable_or_absent (map_of ?d3 ''color_palette'')"
            "sliceable_or_absent (map_of ?d3 ''search_keywords'')"
    using assms(9-14) by (simp_all add: map_of_set_item)
  from fill_optional_ok[OF opt] obtain out where
    out: "fill_optional ?d3 = Inr out" and
    m: "map_of out = (map_of ?d3)
               (''energy_level'' \<mapsto> JStr (lower (opt_str ''medium'' (map_of ?d3 ''energy_level''))),
                ''tempo_feeling'' \<mapsto> JStr (lower (opt_str ''moderate'' (map_of ?d3 ''tempo_feeling''))),
                ''visual_imagery'' \<mapsto> capped 5 (map_of ?d3 ''visual_imagery''),
                ''movement_quality'' \<mapsto> JStr (take 100 (strip (opt_str [] (map_of ?d3 ''movement_quality'')))),
                ''color_palette'' \<mapsto> capped 3 (map_of ?d3 ''color_palette''),
                ''search_keywords'' \<mapsto> capped 5 (map_of ?d3 ''search_keywords''))"
    by blast
  have "validate (JObj d) = Inr out"
    using req vd out by (simp add: validate_def)
  moreover have "map_of out = (map_of d)
               (''emotional_tags'' \<mapsto> cleaned tags,
                ''genres'' \<mapsto> cleaned gs,
                ''playlist_name'' \<mapsto> JStr (take 50 (strip pn)),
                ''energy_level'' \<mapsto> JStr (lower (opt_str ''medium'' (map_of d ''energy_level''))),
                ''tempo_feeling'' \<mapsto> JStr (lower (opt_str ''moderate'' (map_of d ''tempo_feeling''))),
                ''visual_imagery'' \<mapsto> capped 5 (map_of d ''visual_imagery''),
                ''movement_quality'' \<mapsto> JStr (take 100 (strip (opt_str [] (map_of d ''movement_quality'')))),
                ''color_palette'' \<mapsto> capped 3 (map_of d ''color_palette''),
                ''search_keywords'' \<mapsto> capped 5 (map_of d ''search_keywords''))"
    unfolding m by (simp add: map_of_set_item fun_eq_iff)
  ultimately show ?thesis by blast
qed

lemma validate_bad:
  assumes "bad_list (map_of d ''emotional_tags'') \<or> bad_list (map_of d ''genres'')
             \<or> bad_name (map_of d ''playlist_name'')"
  shows "\<exists>msg. validate (JObj d) = Inl (ValueError msg)"
proof (cases "map_of d ''emotional_tags''")
  case None
  then show ?thesis by (simp add: validate_def required_fields_def)
next
  case et: (Some et)
  show ?thesis
  proof (cases "map_of d ''genres''")
    case None
    then show ?thesis using et by (simp add: validate_def required_fields_def)
  next
    case ge: (Some ge)
    show ?thesis
    proof (cases "map_of d ''playlist_name''")
      case None
      then show ?thesis using et ge by (simp add: validate_def required_fields_def)
    next
      case pn: (Some pn)
      have req: "missing_field (JObj d) required_fields = Inr None"
        using et ge pn by (simp add: required_fields_def)
      have "nonempty_list et = None \<or> nonempty_list ge = None \<or> nonblank_str pn = None"
        using assms et ge pn by (simp add: bad_list_iff bad_name_iff)
      then have "\<exists>msg. validate_dict d = Inl (ValueError msg)"
        using et ge pn by (auto simp: validate_dict_def split: option.splits)
      then show ?thesis using req by (simp add: validate_def)
    qed
  qed
qed

text \<open>
  Claim C6, amended: for every response that parses as a JSON object whose
  \<open>emotional_tags\<close> and \<open>genres\<close> are non-empty lists with strings as their first three
  entries, whose \<open>playlist_name\<close> is a string that is not whitespace-only, and whose
  optional fields, where present, are strings (\<open>energy_level\<close>, \<open>tempo_feeling\<close>,
  \<open>movement_quality\<close>) or lists or strings (\<open>visual_imagery\<close>, \<open>color_palette\<close>,
  \<open>search_keywords\<close>), \<open>extract_mood_components\<close> returns a profile whose tags and
  genres are the first three entries trimmed and lower-cased, whose name is the trimmed
  name cut to 50 characters, whose energy level and tempo feeling are lower-cased with
  defaults medium and moderate, whose imagery is capped at 5, movement quality trimmed and
  cut to 100, colour palette capped at 3 and search keywords capped at 5. It fails with a
  \<open>ValueError\<close> whenever a required field is missing, of the wrong type, empty, or a
  whitespace-only name.
\<close>

theorem extract_mood_components_normalises:
  "(loads (clean_response resp) = Some (JObj d)
      \<and> map_of d ''emotional_tags'' = Some (JList tags) \<and> tags \<noteq> []
      \<and> list_all is_str (take 3 tags)
      \<and> map_of d ''genres'' = Some (JList gs) \<and> gs \<noteq> []
      \<and> list_all is_str (take 3 gs)
      \<and> map_of d ''playlist_name'' = Some (JStr pn) \<and> strip pn \<noteq> []
      \<and> str_or_absent (map_of d ''energy_level'')
      \<and> str_or_absent (map_of d ''tempo_feeling'')
      \<and> sliceable_or_absent (map_of d ''visual_imagery'')
      \<and> str_or_absent (map_of d ''movement_quality'')
      \<and> sliceable_or_absent (map_of d ''color_palette'')
      \<and> sliceable_or_absent (map_of d ''search_keywords'')
    \<longrightarrow> (\<exists>out. extract_mood_components loads resp = Inr out
           \<and> map_of out ''emotional_tags''
               = Some (JList (map (\<lambda>t. JStr (lower (strip (str_of t)))) (take 3 tags)))
           \<and> map_of out ''genres''
               = Some (JList (map (\<lambda>t. JStr (lower (strip (str_of t)))) (take 3 gs)))
           \<and> map_of out ''playlist_name'' = Some (JStr (take 50 (strip pn)))
           \<and> map_of out ''energy_level''
               = Some (JStr (lower (opt_str ''medium'' (map_of d ''energy_level''))))
           \<and> map_of out ''tempo_feeling''
               = Some (JStr (lower (opt_str ''moderate'' (map_of d ''tempo_feeling''))))
           \<and> map_of out ''visual_imagery'' = Some (capped 5 (map_of d ''visual_imagery''))
           \<and> map_of out ''movement_quality''
               = Some (JStr (take 100 (strip (opt_str [] (map_of d ''movement_quality'')))))
           \<and> map_of out ''color_palette'' = Some (capped 3 (map_of d ''color_palette''))
           \<and> map_of out ''search_keywords'' = Some (capped 5 (map_of d ''search_keywords''))))
   \<and> (loads (clean_response resp) = Some (JObj d)
      \<and> (bad_list (map_of d ''emotional_tags'') \<or> bad_list (map_of d ''genres'')
           \<or> bad_name (map_of d ''playlist_name''))
    \<longrightarrow> (\<exists>msg. extract_mood_components loads resp = Inl (ValueError msg)))"
proof (intro conjI impI)
  assume h: "loads (clean_response resp) = Some (JObj d)
      \<and> map_of d ''emotional_tags'' = Some (JList tags) \<and> tags \<noteq> []
      \<and> list_all is_str (take 3 tags)
      \<and> map_of d ''genres'' = Some (JList gs) \<and> gs \<noteq> []
      \<and> list_all is_str (take 3 gs)
      \<and> map_of d ''playlist_name'' = Some (JStr pn) \<and> strip pn \<noteq> []
      \<and> str_or_absent (map_of d ''energy_level'')
      \<and> str_or_absent (map_of d ''tempo_feeling'')
      \<and> sliceable_or_absent (map_of d ''visual_imagery'')
      \<and> str_or_absent (map_of d ''movement_quality'')
      \<and> sliceable_or_absent (map_of d ''color_palette'')
      \<and> sliceable_or_absent (map_of d ''search_keywords'')"
  then have "\<exists>out. validate (JObj d) = Inr out
           \<and> map_of out = (map_of d)
               (''emotional_tags'' \<mapsto> cleaned tags,
                ''genres'' \<mapsto> cleaned gs,
                ''playlist_name'' \<mapsto> JStr (take 50 (strip pn)),
                ''energy_level'' \<mapsto> JStr (lower (opt_str ''medium'' (map_of d ''energy_level''))),
                ''tempo_feeling'' \<mapsto> JStr (lower (opt_str ''moderate'' (map_of d ''tempo_feeling''))),
                ''visual_imagery'' \<mapsto> capped 5 (map_of d ''visual_imagery''),
                ''movement_quality'' \<mapsto> JStr (take 100 (strip (opt_str [] (map_of d ''movement_quality'')))),
                ''color_palette'' \<mapsto> capped 3 (map_of d ''color_palette''),
                ''search_keywords'' \<mapsto> capped 5 (map_of d ''search_keywords''))"
    by (intro validate_ok) simp_all
  then obtain out where v: "validate (JObj d) = Inr out" and
    m: "map_of out = (map_of d)
               (''emotional_tags'' \<mapsto> cleaned tags,
                ''genres'' \<mapsto> cleaned gs,
                ''playlist_name'' \<mapsto> JStr (take 50 (strip pn)),
                ''energy_level'' \<mapsto> JStr (lower (opt_str ''medium'' (map_of d ''energy_level''))),
                ''tempo_feeling'' \<mapsto> JStr (lower (opt_str ''moderate'' (map_of d ''tempo_feeling''))),
                ''visual_imagery'' \<mapsto> capped 5 (map_of d ''visual_imagery''),
                ''movement_quality'' \<mapsto> JStr (take 100 (strip (opt_str [] (map_of d ''movement_quality'')))),
                ''color_palette'' \<mapsto> capped 3 (map_of d ''color_palette''),
                ''search_keywords'' \<mapsto> capped 5 (map_of d ''search_keywords''))"
    by blast
  have "extract_mood_components loads resp = Inr out"
    using h v by (simp add: extract_mood_components_def)
  then show "\<exists>out. extract_mood_components loads resp = Inr out
           \<and> map_of out ''emotional_tags''
               = Some (JList (map (\<lambda>t. JStr (lower (strip (str_of t)))) (take 3 tags)))
           \<and> map_of out ''genres''
               = Some (JList (map (\<lambda>t. JStr (lower (strip (str_of t)))) (take 3 gs)))
           \<and> map_of out ''playlist_name'' = Some (JStr (take 50 (strip pn)))
           \<and> map_of out ''energy_level''
               = Some (JStr (lower (opt_str ''medium'' (map_of d ''energy_level''))))
           \<and> map_of out ''tempo_feeling''
               = Some (JStr (lower (opt_str ''moderate'' (map_of d ''tempo_feeling''))))
           \<and> map_of out ''visual_imagery'' = Some (capped 5 (map_of d ''visual_imagery''))
           \<and> map_of out ''movement_quality''
               = Some (JStr (take 100 (strip (opt_str [] (map_of d ''movement_quality'')))))
           \<and> map_of out ''color_palette'' = Some (capped 3 (map_of d ''color_palette''))
           \<and> map_of out ''search_keywords'' = Some (capped 5 (map_of d ''search_keywords''))"
    using m by (simp add: cleaned_def)
next
  assume h: "loads (clean_response resp) = Some (JObj d)
      \<and> (bad_list (map_of d ''emotional_tags'') \<or> bad_list (map_of d ''genres'')
           \<or> bad_name (map_of d ''playlist_name''))"
  then have "\<exists>msg. validate (JObj d) = Inl (ValueError msg)"
    by (intro validate_bad) simp
  then show "\<exists>msg. extract_mood_components loads resp = Inl (ValueError msg)"
    using h by (simp add: extract_mood_components_def)
qed

lemma clean_no_genres: "sample_loads (clean_response no_genres_text) = Some no_genres_json"
  by code_simp

lemma loads_fenced: "sample_loads (clean_response fenced_response) = Some good_json"
  by code_simp

theorem extract_mood_components_normalises_witness:
  "sample_loads (clean_response fenced_response) = Some good_json
   \<and> (\<exists>out. extract_mood_components sample_loads fenced_response = Inr out
         \<and> map_of out ''emotional_tags'' = Some (JList [JStr ''calm'', JStr ''dreamy'', JStr ''soft''])
         \<and> map_of out ''genres'' = Some (JList [JStr ''ambient''])
         \<and> map_of out ''playlist_name'' = Some (JStr ''Dawn Mist'')
         \<and> map_of out ''energy_level'' = Some (JStr ''low'')
         \<and> map_of out ''tempo_feeling'' = Some (JStr ''moderate'')
         \<and> map_of out ''visual_imagery'' = Some (JList [])
         \<and> map_of out ''movement_quality'' = Some (JStr [])
         \<and> map_of out ''color_palette'' = Some (JList [])
         \<and> map_of out ''search_keywords'' = Some (JList []))
   \<and> sample_loads (clean_response no_genres_text) = Some no_genres_json
   \<and> (\<exists>msg. extract_mood_components sample_loads no_genres_text = Inl (ValueError msg))"
proof -
  let ?d = "[(''emotional_tags'', JList [JStr '' Calm '', JStr ''DREAMY'', JStr ''soft'', JStr ''extra'']),
      (''genres'', JList [JStr ''Ambient'']),
      (''playlist_name'', JStr ''  Dawn Mist  ''),
      (''energy_level'', JStr ''LOW'')]"
  let ?e = "[(''emotional_tags'', JList [JStr ''calm'']), (''playlist_name'', JStr ''Mix'')]"
  have sp: "strip ''  Dawn Mist  '' = ''Dawn Mist''" by code_simp
  have l1: "lower (strip '' Calm '') = ''calm''" by code_simp
  have l2: "lower (strip ''DREAMY'') = ''dreamy''" by code_simp
  have l3: "lower (strip ''soft'') = ''soft''" by code_simp
  have l4: "lower (strip ''Ambient'') = ''ambient''" by code_simp
  have l5: "lower ''LOW'' = ''low''" by code_simp
  have l6: "lower ''medium'' = ''medium''" by code_simp
  have l7: "lower ''moderate'' = ''moderate''" by code_simp
  have l8: "strip [] = []" by code_simp
  have good: "sample_loads (clean_response fenced_response) = Some (JObj ?d)"
    using loads_fenced by (simp add: good_json_def)
  have bad: "sample_loads (clean_response no_genres_text) = Some (JObj ?e)"
    using clean_no_genres by (simp add: no_genres_json_def)
  note inst = extract_mood_components_normalises[of sample_loads fenced_response ?d
      "[JStr '' Calm '', JStr ''DREAMY'', JStr ''soft'', JStr ''extra'']" "[JStr ''Ambient'']"
      "''  Dawn Mist  ''"]
  have a: "\<exists>out. extract_mood_components sample_loads fenced_response = Inr out
         \<and> map_of out ''emotional_tags'' = Some (JList [JStr ''calm'', JStr ''dreamy'', JStr ''soft''])
         \<and> map_of out ''genres'' = Some (JList [JStr ''ambient''])
         \<and> map_of out ''playlist_name'' = Some (JStr ''Dawn Mist'')
         \<and> map_of out ''energy_level'' = Some (JStr ''low'')
         \<and> map_of out ''tempo_feeling'' = Some (JStr ''moderate'')
         \<and> map_of out ''visual_imagery'' = Some (JList [])
         \<and> map_of out ''movement_quality'' = Some (JStr [])
         \<and> map_of out ''color_palette'' = Some (JList [])
         \<and> map_of out ''search_keywords'' = Some (JList [])"
    using inst good by (simp add: sp l1 l2 l3 l4 l5 l6 l7 l8)
  have b: "\<exists>msg. extract_mood_components sample_loads no_genres_text = Inl (ValueError msg)"
    using extract_mood_components_normalises[of sample_loads no_genres_text ?e] bad by simp
  show ?thesis using a b loads_fenced clean_no_genres by blast
qed

text \<open>
  Claim C6 as stated promises a profile for every object with non-empty list fields and a
  non-empty name. A tag list holding a number meets that, and the call raises
  \<open>AttributeError\<close> at \<open>tag.strip()\<close>.
\<close>

theorem non_string_tag_raises:
  "sample_loads (clean_response number_tag_text) = Some number_tag_json
   \<and> extract_mood_components sample_loads number_tag_text = Inl AttributeError"
  by code_simp

subsection \<open>generate_mood_image\<close>

text \<open>
  Claim C9: \<open>generate_mood_image\<close> never raises. It returns \<open>None\<close>, its failed result,
  when the API key is missing, when the generation call raises, when the download raises,
  and when the download answers with a status other than 200.
\<close>

theorem generate_mood_image_soft_failure:
  "(\<exists>r. generate_mood_image api_key service b64encode tags0 gs0 mood_text vi mq cp el = Inr r)
   \<and> (\<not> truthy api_key \<longrightarrow>
        generate_mood_image api_key service b64encode tags0 gs0 mood_text vi mq cp el = Inr None)
   \<and> (images_generate service (create_image_prompt tags gs mood_text vi mq cp el) = Inl e \<longrightarrow>
        generate_mood_image api_key service b64encode (Some tags) (Some gs) mood_text vi mq cp el
          = Inr None)
   \<and> (images_generate service (create_image_prompt tags gs mood_text vi mq cp el) = Inr (u # us)
        \<and> requests_get service u = Inl e \<longrightarrow>
        generate_mood_image api_key service b64encode (Some tags) (Some gs) mood_text vi mq cp el
          = Inr None)
   \<and> (images_generate service (create_image_prompt tags gs mood_text vi mq cp el) = Inr (u # us)
        \<and> requests_get service u = Inr (status, content) \<and> status \<noteq> 200 \<longrightarrow>
        generate_mood_image api_key service b64encode (Some tags) (Some gs) mood_text vi mq cp el
          = Inr None)"
  by (auto simp: generate_mood_image_def image_attempt_def sbind_def Let_def
      split: sum.splits option.splits list.splits)

theorem generate_mood_image_soft_failure_witness:
  "\<not> truthy None
   \<and> generate_mood_image None offline_images plain_b64 (Some [''calm'']) (Some [''folk''])
        (Some ''calm evening'') None None None None = Inr None
   \<and> generate_mood_image (Some ''sk-key'') offline_images plain_b64 (Some [''calm'']) (Some [''folk''])
        (Some ''calm evening'') None None None None = Inr None
   \<and> generate_mood_image (Some ''sk-key'') broken_download plain_b64 (Some [''calm'']) (Some [''folk''])
        (Some ''calm evening'') None None None None = Inr None"
  using generate_mood_image_soft_failure[of None offline_images plain_b64 "Some [''calm'']" "Some [''folk'']"
          "Some ''calm evening''" None None None None "[''calm'']" "[''folk'']" "Exception ''connection refused''"]
        generate_mood_image_soft_failure[of "Some ''sk-key''" offline_images plain_b64 "Some [''calm'']" "Some [''folk'']"
          "Some ''calm evening''" None None None None "[''calm'']" "[''folk'']" "Exception ''connection refused''"]
        generate_mood_image_soft_failure[of "Some ''sk-key''" broken_download plain_b64 "Some [''calm'']" "Some [''folk'']"
          "Some ''calm evening''" None None None None "[''calm'']" "[''folk'']" "Exception []"
          "''https://images.example/1.png''" "[]" 404 "''Not Found''"]
  by (simp add: truthy_def offline_images_def broken_download_def)

end
